theory Spec2Isabelle
  imports Complex_Main
begin

section \<open>Numeric conventions\<close>

text \<open>
  \<^verbatim>\<open>Standard_Real\<close> is read as a real number: rounding is not part of the model.
  \<^verbatim>\<open>Standard_Integer\<close> loop counters and vertex indices stay far below any overflow and
  are natural numbers. Vertex indices are 1-based, as in the source.
\<close>

type_synonym gp_XYZ = "real \<times> real \<times> real"

definition gp_X :: "gp_XYZ \<Rightarrow> real" where
  "gp_X v = fst v"

definition gp_Y :: "gp_XYZ \<Rightarrow> real" where
  "gp_Y v = fst (snd v)"

definition gp_Z :: "gp_XYZ \<Rightarrow> real" where
  "gp_Z v = snd (snd v)"

text \<open>\<^verbatim>\<open>Coord (i)\<close> for i in 1..3; the only caller loops over exactly these indices.\<close>

definition Coord :: "gp_XYZ \<Rightarrow> nat \<Rightarrow> real" where
  "Coord v i = (if i = 1 then gp_X v else if i = 2 then gp_Y v else gp_Z v)"

definition Dot :: "gp_XYZ \<Rightarrow> gp_XYZ \<Rightarrow> real" where
  "Dot a b = gp_X a * gp_X b + gp_Y a * gp_Y b + gp_Z a * gp_Z b"

definition Crossed :: "gp_XYZ \<Rightarrow> gp_XYZ \<Rightarrow> gp_XYZ" where
  "Crossed a b =
     (gp_Y a * gp_Z b - gp_Z a * gp_Y b,
      gp_Z a * gp_X b - gp_X a * gp_Z b,
      gp_X a * gp_Y b - gp_Y a * gp_X b)"

definition Modulus :: "gp_XYZ \<Rightarrow> real" where
  "Modulus a = sqrt (gp_X a * gp_X a + gp_Y a * gp_Y a + gp_Z a * gp_Z a)"

definition Added :: "gp_XYZ \<Rightarrow> gp_XYZ \<Rightarrow> gp_XYZ" where
  "Added a b = (gp_X a + gp_X b, gp_Y a + gp_Y b, gp_Z a + gp_Z b)"

definition Subtracted :: "gp_XYZ \<Rightarrow> gp_XYZ \<Rightarrow> gp_XYZ" where
  "Subtracted a b = (gp_X a - gp_X b, gp_Y a - gp_Y b, gp_Z a - gp_Z b)"

definition Multiplied :: "gp_XYZ \<Rightarrow> real \<Rightarrow> gp_XYZ" where
  "Multiplied a s = (gp_X a * s, gp_Y a * s, gp_Z a * s)"

definition Reversed :: "gp_XYZ \<Rightarrow> gp_XYZ" where
  "Reversed a = (- gp_X a, - gp_Y a, - gp_Z a)"

text \<open>
  Modelled from the spec: \<^verbatim>\<open>gp::Resolution()\<close>, the "small numerical tolerance" of the
  classifier. Its header is not among the sources; the library defines it as the
  smallest positive normal double, 2 to the power -1022.
\<close>

definition Resolution :: real where
  "Resolution = 1 / 2 ^ 1022"

text \<open>
  Modelled from the spec: the tolerances of \<^verbatim>\<open>Precision\<close> (header not among the sources):
  \<^verbatim>\<open>Confusion() = 1e-7\<close>, \<^verbatim>\<open>Angular() = 1e-12\<close>, \<^verbatim>\<open>Infinite() = 2e100\<close>.
\<close>

definition Precision_Confusion :: real where
  "Precision_Confusion = 1 / 10 ^ 7"

definition Precision_Angular :: real where
  "Precision_Angular = 1 / 10 ^ 12"

definition Precision_Infinite :: real where
  "Precision_Infinite = 2 * 10 ^ 100"

text \<open>
  Modelled from the spec: a direction (\<^verbatim>\<open>gp_Dir\<close>) is a unit vector; its constructor
  from three coordinates divides them by their magnitude. \<open>normalized\<close> is that
  division; \<open>gp_Dir\<close> adds the constructor's refusal of a null magnitude.
\<close>

definition normalized :: "real \<Rightarrow> real \<Rightarrow> real \<Rightarrow> gp_XYZ" where
  "normalized x y z = (let aD = sqrt (x * x + y * y + z * z) in (x / aD, y / aD, z / aD))"

datatype error = Standard_ConstructionError | Standard_OutOfRange string

definition gp_Dir :: "real \<Rightarrow> real \<Rightarrow> real \<Rightarrow> error + gp_XYZ" where
  "gp_Dir x y z =
     (if sqrt (x * x + y * y + z * z) \<le> Resolution then Inl Standard_ConstructionError
      else Inr (normalized x y z))"

section \<open>Orientations and their classification\<close>

text \<open>
  \<^verbatim>\<open>V3d_TypeOfOrientation\<close>, in the order of the enumeration: the loops of the source run
  from 0 to \<^verbatim>\<open>V3d_XnegYnegZneg\<close>, the last of the 26 values.
\<close>

datatype V3d_TypeOfOrientation =
    V3d_Xpos | V3d_Ypos | V3d_Zpos | V3d_Xneg | V3d_Yneg | V3d_Zneg
  | V3d_XposYpos | V3d_XposZpos | V3d_YposZpos
  | V3d_XnegYneg | V3d_XnegYpos | V3d_XnegZneg | V3d_XnegZpos
  | V3d_YnegZneg | V3d_YnegZpos | V3d_XposYneg | V3d_XposZneg | V3d_YposZneg
  | V3d_XposYposZpos | V3d_XposYnegZpos | V3d_XposYposZneg | V3d_XnegYposZpos
  | V3d_XposYnegZneg | V3d_XnegYposZneg | V3d_XnegYnegZpos | V3d_XnegYnegZneg

definition all_orientations :: "V3d_TypeOfOrientation list" where
  "all_orientations =
     [V3d_Xpos, V3d_Ypos, V3d_Zpos, V3d_Xneg, V3d_Yneg, V3d_Zneg,
      V3d_XposYpos, V3d_XposZpos, V3d_YposZpos,
      V3d_XnegYneg, V3d_XnegYpos, V3d_XnegZneg, V3d_XnegZpos,
      V3d_YnegZneg, V3d_YnegZpos, V3d_XposYneg, V3d_XposZneg, V3d_YposZneg,
      V3d_XposYposZpos, V3d_XposYnegZpos, V3d_XposYposZneg, V3d_XnegYposZpos,
      V3d_XposYnegZneg, V3d_XnegYposZneg, V3d_XnegYnegZpos, V3d_XnegYnegZneg]"

text \<open>
  Modelled from the spec: \<^verbatim>\<open>V3d::GetProjAxis\<close> (V3d.hxx is not among the sources), the
  table from an orientation to its direction: "one of 26 unit vectors along combinations
  of {-1,0,1} minus the zero vector", the signs as the orientation's name gives them.
\<close>

fun GetProjAxis :: "V3d_TypeOfOrientation \<Rightarrow> gp_XYZ" where
  "GetProjAxis V3d_Xpos = (1, 0, 0)"
| "GetProjAxis V3d_Ypos = (0, 1, 0)"
| "GetProjAxis V3d_Zpos = (0, 0, 1)"
| "GetProjAxis V3d_Xneg = (-1, 0, 0)"
| "GetProjAxis V3d_Yneg = (0, -1, 0)"
| "GetProjAxis V3d_Zneg = (0, 0, -1)"
| "GetProjAxis V3d_XposYpos = normalized 1 1 0"
| "GetProjAxis V3d_XposZpos = normalized 1 0 1"
| "GetProjAxis V3d_YposZpos = normalized 0 1 1"
| "GetProjAxis V3d_XnegYneg = normalized (-1) (-1) 0"
| "GetProjAxis V3d_XnegYpos = normalized (-1) 1 0"
| "GetProjAxis V3d_XnegZneg = normalized (-1) 0 (-1)"
| "GetProjAxis V3d_XnegZpos = normalized (-1) 0 1"
| "GetProjAxis V3d_YnegZneg = normalized 0 (-1) (-1)"
| "GetProjAxis V3d_YnegZpos = normalized 0 (-1) 1"
| "GetProjAxis V3d_XposYneg = normalized 1 (-1) 0"
| "GetProjAxis V3d_XposZneg = normalized 1 0 (-1)"
| "GetProjAxis V3d_YposZneg = normalized 0 1 (-1)"
| "GetProjAxis V3d_XposYposZpos = normalized 1 1 1"
| "GetProjAxis V3d_XposYnegZpos = normalized 1 (-1) 1"
| "GetProjAxis V3d_XposYposZneg = normalized 1 1 (-1)"
| "GetProjAxis V3d_XnegYposZpos = normalized (-1) 1 1"
| "GetProjAxis V3d_XposYnegZneg = normalized 1 (-1) (-1)"
| "GetProjAxis V3d_XnegYposZneg = normalized (-1) 1 (-1)"
| "GetProjAxis V3d_XnegYnegZpos = normalized (-1) (-1) 1"
| "GetProjAxis V3d_XnegYnegZneg = normalized (-1) (-1) (-1)"

text \<open>The loop of \<^verbatim>\<open>nbDirectionComponents\<close>: \<^verbatim>\<open>aCompIter\<close> runs from 1 to 3.\<close>

function nbDirectionComponents_loop :: "gp_XYZ \<Rightarrow> nat \<Rightarrow> nat \<Rightarrow> nat" where
  "nbDirectionComponents_loop theDir aCompIter aNbComps =
     (if aCompIter \<le> 3
      then nbDirectionComponents_loop theDir (aCompIter + 1)
             (if \<bar>Coord theDir aCompIter\<bar> > Resolution then aNbComps + 1 else aNbComps)
      else aNbComps)"
  by pat_completeness auto
termination
  by (relation "measure (\<lambda>(theDir, aCompIter, aNbComps). 4 - aCompIter)") auto

definition nbDirectionComponents :: "gp_XYZ \<Rightarrow> nat" where
  "nbDirectionComponents theDir = nbDirectionComponents_loop theDir 1 0"

definition IsBoxSide :: "V3d_TypeOfOrientation \<Rightarrow> bool" where
  "IsBoxSide theOrient = (nbDirectionComponents (GetProjAxis theOrient) = 1)"

definition IsBoxEdge :: "V3d_TypeOfOrientation \<Rightarrow> bool" where
  "IsBoxEdge theOrient = (nbDirectionComponents (GetProjAxis theOrient) = 2)"

definition IsBoxCorner :: "V3d_TypeOfOrientation \<Rightarrow> bool" where
  "IsBoxCorner theOrient = (nbDirectionComponents (GetProjAxis theOrient) = 3)"


section \<open>Triangle arrays and placements\<close>

text \<open>
  Modelled from the spec: \<^verbatim>\<open>Graphic3d_ArrayOfTriangles\<close> (its header is not among the
  sources), the Mesh of the data model: "a list of 3D vertices with per-vertex normals and
  a list of triangle index triples". The constructor fixes the capacities; \<^verbatim>\<open>AddVertex\<close>
  and \<^verbatim>\<open>AddEdge\<close> append; three consecutive edge indices make one triangle; indices
  are 1-based.
\<close>

record Graphic3d_ArrayOfTriangles =
  maxVertexs :: nat
  maxEdges :: nat
  Vertices :: "gp_XYZ list"
  Normals :: "gp_XYZ list"
  Edges :: "nat list"

definition new_ArrayOfTriangles :: "nat \<Rightarrow> nat \<Rightarrow> Graphic3d_ArrayOfTriangles" where
  "new_ArrayOfTriangles theMaxVertexs theMaxEdges =
     \<lparr>maxVertexs = theMaxVertexs, maxEdges = theMaxEdges, Vertices = [], Normals = [], Edges = []\<rparr>"

definition AddVertex :: "gp_XYZ \<Rightarrow> Graphic3d_ArrayOfTriangles \<Rightarrow> Graphic3d_ArrayOfTriangles" where
  "AddVertex p t = t\<lparr>Vertices := Vertices t @ [p], Normals := Normals t @ [(0, 0, 0)]\<rparr>"

definition AddEdge :: "nat \<Rightarrow> Graphic3d_ArrayOfTriangles \<Rightarrow> Graphic3d_ArrayOfTriangles" where
  "AddEdge i t = t\<lparr>Edges := Edges t @ [i]\<rparr>"

definition AddEdges :: "nat \<Rightarrow> nat \<Rightarrow> nat \<Rightarrow> Graphic3d_ArrayOfTriangles \<Rightarrow> Graphic3d_ArrayOfTriangles" where
  "AddEdges i j k t = AddEdge k (AddEdge j (AddEdge i t))"

definition VertexNumber :: "Graphic3d_ArrayOfTriangles \<Rightarrow> nat" where
  "VertexNumber t = length (Vertices t)"

definition Vertice :: "nat \<Rightarrow> Graphic3d_ArrayOfTriangles \<Rightarrow> gp_XYZ" where
  "Vertice i t = Vertices t ! (i - 1)"

definition SetVertexNormal :: "nat \<Rightarrow> gp_XYZ \<Rightarrow> Graphic3d_ArrayOfTriangles \<Rightarrow> Graphic3d_ArrayOfTriangles" where
  "SetVertexNormal i n t = t\<lparr>Normals := (Normals t)[i - 1 := n]\<rparr>"

text \<open>The closing loop of every builder: each vertex gets the same normal.\<close>

function setNormals_loop :: "gp_XYZ \<Rightarrow> nat \<Rightarrow> Graphic3d_ArrayOfTriangles \<Rightarrow> Graphic3d_ArrayOfTriangles" where
  "setNormals_loop theNorm aVertIter aTris =
     (if aVertIter \<le> VertexNumber aTris
      then setNormals_loop theNorm (aVertIter + 1) (SetVertexNormal aVertIter theNorm aTris)
      else aTris)"
  by pat_completeness auto
termination
  by (relation "measure (\<lambda>(theNorm, aVertIter, aTris). VertexNumber aTris + 1 - aVertIter)")
     (auto simp: VertexNumber_def SetVertexNormal_def)

text \<open>
  Modelled from the spec: \<^verbatim>\<open>gp_Trsf\<close>, the placement: "a 3D rigid transform (origin +
  orientation) applied to every generated 2D point". It is held as the images of the three
  coordinate axes and of the origin; a point is moved with the origin, a direction is not.
\<close>

record gp_Trsf =
  XImage :: gp_XYZ
  YImage :: gp_XYZ
  ZImage :: gp_XYZ
  Location :: gp_XYZ

definition Dir_Transformed :: "gp_Trsf \<Rightarrow> gp_XYZ \<Rightarrow> gp_XYZ" where
  "Dir_Transformed theTrsf v =
     Added (Added (Multiplied (XImage theTrsf) (gp_X v)) (Multiplied (YImage theTrsf) (gp_Y v)))
       (Multiplied (ZImage theTrsf) (gp_Z v))"

definition Pnt_Transformed :: "gp_Trsf \<Rightarrow> gp_XYZ \<Rightarrow> gp_XYZ" where
  "Pnt_Transformed theTrsf p = Added (Dir_Transformed theTrsf p) (Location theTrsf)"

definition identity_Trsf :: gp_Trsf where
  "identity_Trsf = \<lparr>XImage = (1, 0, 0), YImage = (0, 1, 0), ZImage = (0, 0, 1), Location = (0, 0, 0)\<rparr>"

section \<open>The rounded rectangle\<close>

definition THE_NB_ROUND_SPLITS :: nat where
  "THE_NB_ROUND_SPLITS = 8"

definition THE_NB_DISK_SLICES :: nat where
  "THE_NB_DISK_SLICES = 20"

text \<open>
  Modelled from the spec: \<^verbatim>\<open>NCollection_Lerp<Standard_Real>::Interpolate\<close> (header not among
  the sources): "each arc interpolating linearly in angle".
\<close>

definition Interpolate :: "real \<Rightarrow> real \<Rightarrow> real \<Rightarrow> real" where
  "Interpolate theStart theEnd theT = (1 - theT) * theStart + theT * theEnd"

type_synonym gp_XY = "real \<times> real"

text \<open>The two constants computed before any vertex: the clamped radius and the half size.\<close>

definition rect_aRadius :: "gp_XY \<Rightarrow> real \<Rightarrow> real" where
  "rect_aRadius theSize theRadius = min theRadius (min (fst theSize) (snd theSize) * 0.5)"

definition rect_aHSize :: "gp_XY \<Rightarrow> real \<Rightarrow> gp_XY" where
  "rect_aHSize theSize theRadius =
     (fst theSize * 0.5 - rect_aRadius theSize theRadius,
      snd theSize * 0.5 - rect_aRadius theSize theRadius)"

text \<open>
  One vertex of a quarter arc: the arc's centre \<open>(cx, cy)\<close>, its angles from \<open>a0\<close> to
  \<open>a1\<close>, and the node's number.
\<close>

definition arcVertex :: "gp_Trsf \<Rightarrow> real \<Rightarrow> real \<Rightarrow> real \<Rightarrow> real \<Rightarrow> real \<Rightarrow> nat \<Rightarrow> gp_XYZ" where
  "arcVertex theTrsf aRadius cx cy a0 a1 aNodeIter =
     (let anAngle = Interpolate a0 a1 (real aNodeIter / real THE_NB_ROUND_SPLITS)
      in Pnt_Transformed theTrsf (cx + aRadius * cos anAngle, cy + aRadius * sin anAngle, 0))"

text \<open>
  The four arc loops of the source differ in the centre and the two angles only:
  \<^verbatim>\<open>aNodeIter\<close> runs from 0 to \<^verbatim>\<open>THE_NB_ROUND_SPLITS\<close>, both included.
\<close>

function arc_loop ::
  "gp_Trsf \<Rightarrow> real \<Rightarrow> real \<Rightarrow> real \<Rightarrow> real \<Rightarrow> real \<Rightarrow> nat \<Rightarrow> Graphic3d_ArrayOfTriangles
     \<Rightarrow> Graphic3d_ArrayOfTriangles" where
  "arc_loop theTrsf aRadius cx cy a0 a1 aNodeIter aTris =
     (if aNodeIter \<le> THE_NB_ROUND_SPLITS
      then arc_loop theTrsf aRadius cx cy a0 a1 (aNodeIter + 1)
             (AddVertex (arcVertex theTrsf aRadius cx cy a0 a1 aNodeIter) aTris)
      else aTris)"
  by pat_completeness auto
termination
  by (relation "measure (\<lambda>(theTrsf, aRadius, cx, cy, a0, a1, aNodeIter, aTris).
        THE_NB_ROUND_SPLITS + 1 - aNodeIter)") auto

text \<open>The loop that splits the fan: \<^verbatim>\<open>aNodeIter\<close> runs from 2 to the vertex number.\<close>

function fan_loop :: "nat \<Rightarrow> Graphic3d_ArrayOfTriangles \<Rightarrow> Graphic3d_ArrayOfTriangles" where
  "fan_loop aNodeIter aTris =
     (if aNodeIter \<le> VertexNumber aTris
      then fan_loop (aNodeIter + 1) (AddEdge aNodeIter (AddEdge (aNodeIter - 1) (AddEdge 1 aTris)))
      else aTris)"
  by pat_completeness auto
termination
  by (relation "measure (\<lambda>(aNodeIter, aTris). VertexNumber aTris + 1 - aNodeIter)")
     (auto simp: VertexNumber_def AddEdge_def)

definition createRoundRectangleTriangles ::
  "gp_XY \<Rightarrow> real \<Rightarrow> gp_Trsf \<Rightarrow> Graphic3d_ArrayOfTriangles" where
  "createRoundRectangleTriangles theSize theRadius theTrsf =
     (let aRadius = rect_aRadius theSize theRadius;
          aHSize = rect_aHSize theSize theRadius;
          aNorm = Dir_Transformed theTrsf (0, 0, 1);
          aTris =
            (if aRadius > 0 then
               (let aNbNodes = (THE_NB_ROUND_SPLITS + 1) * 4 + 1;
                    t0 = new_ArrayOfTriangles aNbNodes (aNbNodes * 3);
                    t1 = AddVertex (Pnt_Transformed theTrsf (0, 0, 0)) t0;
                    t2 = arc_loop theTrsf aRadius (fst aHSize) (snd aHSize) (pi * 0.5) 0 0 t1;
                    t3 = arc_loop theTrsf aRadius (fst aHSize) (- snd aHSize) 0 (- pi * 0.5) 0 t2;
                    t4 = arc_loop theTrsf aRadius (- fst aHSize) (- snd aHSize) (- pi * 0.5) (- pi) 0 t3;
                    t5 = arc_loop theTrsf aRadius (- fst aHSize) (snd aHSize) (- pi) (- pi * 1.5) 0 t4;
                    t6 = fan_loop 2 t5
                in AddEdge 2 (AddEdge (VertexNumber t6) (AddEdge 1 t6)))
             else
               (let t0 = new_ArrayOfTriangles 4 6;
                    t1 = AddVertex (Pnt_Transformed theTrsf (- fst aHSize, - snd aHSize, 0)) t0;
                    t2 = AddVertex (Pnt_Transformed theTrsf (- fst aHSize, snd aHSize, 0)) t1;
                    t3 = AddVertex (Pnt_Transformed theTrsf (fst aHSize, snd aHSize, 0)) t2;
                    t4 = AddVertex (Pnt_Transformed theTrsf (fst aHSize, - snd aHSize, 0)) t3
                in AddEdges 1 3 4 (AddEdges 3 1 2 t4)))
      in setNormals_loop (Reversed aNorm) 1 aTris)"


section \<open>Cameras, the animation object and the view cube\<close>

text \<open>
  Modelled from the spec: the CameraPose ("eye/position, view direction, up vector, and
  projection scale/zoom"), the fields of \<^verbatim>\<open>Graphic3d_Camera\<close> the code reads and writes.
\<close>

record Graphic3d_Camera =
  Eye :: gp_XYZ
  Direction :: gp_XYZ
  Up :: gp_XYZ
  Scale :: real

text \<open>
  A view is known by its identity, its camera, and its two flags. A handle to a view is an
  optional view: \<open>None\<close> is the null handle.
\<close>

record V3d_View =
  ViewId :: nat
  Camera :: Graphic3d_Camera
  ImmediateUpdate :: bool
  IsInvalidated :: bool

text \<open>
  Modelled from the spec: \<^verbatim>\<open>AIS_AnimationCamera\<close>, the AnimationSession. \<open>IsStopped\<close> is
  what \<^verbatim>\<open>IsStopped()\<close> answers: true from construction and after \<^verbatim>\<open>Stop()\<close>, false
  after \<^verbatim>\<open>StartTimer\<close>.
\<close>

record AIS_AnimationCamera =
  View :: "V3d_View option"
  CameraStart :: Graphic3d_Camera
  CameraEnd :: Graphic3d_Camera
  OwnDuration :: real
  IsStopped :: bool

text \<open>
  What the widget does to the outside, in order: the two notifications
  \<^verbatim>\<open>onAnimationFinished\<close> and \<^verbatim>\<open>onAfterAnimation\<close>, and the redraws it asks of the view.
\<close>

datatype event = AnimationFinished | AfterAnimation | Redraw | RedrawImmediate

record AIS_ViewCube =
  mySize :: real
  myBoxEdgeMinSize :: real
  myBoxEdgeGap :: real
  myBoxFacetExtension :: real
  myAxesPadding :: real
  myCornerMinSize :: real
  myRoundRadius :: real
  myToDisplayAxes :: bool
  myToDisplayEdges :: bool
  myToDisplayVertices :: bool
  myIsYup :: bool
  myViewAnimation :: AIS_AnimationCamera
  myStartState :: Graphic3d_Camera
  myEndState :: Graphic3d_Camera
  myDuration :: real
  myToAutoStartAnim :: bool
  myIsFixedAnimation :: bool
  myToFitSelected :: bool
  myToResetCameraUp :: bool
  myToUpdate :: bool
  myEvents :: "event list"

text \<open>\<^verbatim>\<open>SetToUpdate()\<close> marks the presentation stale.\<close>

definition SetToUpdate :: "AIS_ViewCube \<Rightarrow> AIS_ViewCube" where
  "SetToUpdate c = c\<lparr>myToUpdate := True\<rparr>"

definition new_Graphic3d_Camera :: Graphic3d_Camera where
  "new_Graphic3d_Camera = \<lparr>Eye = (0, 0, 1), Direction = (0, 0, -1), Up = (0, 1, 0), Scale = 1000\<rparr>"

text \<open>
  The cube as the constructor leaves it: the initialiser list, then \<^verbatim>\<open>SetSize (70.0)\<close>,
  which adapts the facet extension to 0.15 and the axes padding to 0.1 of the size.
\<close>

definition new_AIS_ViewCube :: AIS_ViewCube where
  "new_AIS_ViewCube =
     \<lparr>mySize = 70, myBoxEdgeMinSize = 2, myBoxEdgeGap = 0, myBoxFacetExtension = 70 * 0.15,
      myAxesPadding = 70 * 0.1, myCornerMinSize = 2, myRoundRadius = 0,
      myToDisplayAxes = True, myToDisplayEdges = True, myToDisplayVertices = True,
      myIsYup = False,
      myViewAnimation =
        \<lparr>View = None, CameraStart = new_Graphic3d_Camera, CameraEnd = new_Graphic3d_Camera,
         OwnDuration = 0, IsStopped = True\<rparr>,
      myStartState = new_Graphic3d_Camera, myEndState = new_Graphic3d_Camera,
      myDuration = 0.5, myToAutoStartAnim = True, myIsFixedAnimation = True,
      myToFitSelected = True, myToResetCameraUp = False, myToUpdate = True, myEvents = []\<rparr>"

section \<open>Style parameters\<close>

text \<open>
  \<^verbatim>\<open>Standard_OutOfRange_Raise_if\<close> raises when its condition holds. The result is the
  exception, if one was raised, and the cube as the call leaves it.
\<close>

definition SetRoundRadius :: "real \<Rightarrow> AIS_ViewCube \<Rightarrow> error option \<times> AIS_ViewCube" where
  "SetRoundRadius theValue c =
     (if theValue < 0 \<or> theValue > 0.5
      then (Some (Standard_OutOfRange ''AIS_ViewCube::SetRoundRadius(): theValue should be in [0; 0.5]''), c)
      else if \<bar>myRoundRadius c - theValue\<bar> > Precision_Confusion
      then (None, SetToUpdate (c\<lparr>myRoundRadius := theValue\<rparr>))
      else (None, c))"

section \<open>The sharp corner\<close>

text \<open>
  \<^verbatim>\<open>createBoxCornerTriangles\<close>. The rounded branch hands its position, its normal and its
  radius to \<^verbatim>\<open>gp_Ax2\<close>, \<^verbatim>\<open>gp_Trsf::SetTransformation\<close> and \<^verbatim>\<open>Prs3d_ToolDisk::Create\<close>, none
  of which is among the sources: \<open>thePlacement\<close> stands for the first two (from a position
  and a main direction to a placement) and \<open>theToolDisk\<close> for the third.
\<close>

definition createBoxCornerTriangles ::
  "(gp_XYZ \<Rightarrow> gp_XYZ \<Rightarrow> gp_Trsf) \<Rightarrow> (real \<Rightarrow> real \<Rightarrow> nat \<Rightarrow> nat \<Rightarrow> gp_Trsf \<Rightarrow> Graphic3d_ArrayOfTriangles)
     \<Rightarrow> AIS_ViewCube \<Rightarrow> V3d_TypeOfOrientation \<Rightarrow> error + Graphic3d_ArrayOfTriangles" where
  "createBoxCornerTriangles thePlacement theToolDisk c theDir =
     (let aHSize = mySize c * 0.5;
          aDir = GetProjAxis theDir;
          aHSizeDir = Multiplied aDir (aHSize * Modulus (1, 1, 1))
      in if myRoundRadius c > 0 then
           (let anEdgeHWidth = myBoxFacetExtension c * sqrt (1 * 1 + 1 * 1) * 0.5;
                aHeight = anEdgeHWidth * sqrt (2 / 3);
                aPos = Multiplied aDir (aHSize * Modulus (1, 1, 1) + aHeight);
                aTrsf = thePlacement aPos (Reversed aDir);
                aRadius = max (myBoxFacetExtension c * 0.5 / cos (pi / 4)) (myCornerMinSize c)
            in Inr (theToolDisk 0 aRadius THE_NB_DISK_SLICES 1 aTrsf))
         else
           (case gp_Dir (gp_X aDir) 0 0 of Inl e \<Rightarrow> Inl e | Inr d1 \<Rightarrow>
            case gp_Dir 0 (gp_Y aDir) 0 of Inl e \<Rightarrow> Inl e | Inr d2 \<Rightarrow>
            case gp_Dir 0 0 (gp_Z aDir) of Inl e \<Rightarrow> Inl e | Inr d3 \<Rightarrow>
              (let t0 = new_ArrayOfTriangles 3 3;
                   t1 = AddVertex (Added aHSizeDir (Multiplied d1 (myBoxFacetExtension c))) t0;
                   t2 = AddVertex (Added aHSizeDir (Multiplied d2 (myBoxFacetExtension c))) t1;
                   t3 = AddVertex (Added aHSizeDir (Multiplied d3 (myBoxFacetExtension c))) t2;
                   aNode1 = Vertice 1 t3;
                   aNode2 = Vertice 2 t3;
                   aNode3 = Vertice 3 t3;
                   aNormTri = Crossed (Subtracted aNode2 aNode1) (Subtracted aNode3 aNode1);
                   t4 = (if Dot aNormTri aDir < 0 then AddEdges 1 3 2 t3 else AddEdges 1 2 3 t3)
               in Inr (setNormals_loop aDir 1 t4))))"


section \<open>Angles and rotations\<close>

text \<open>
  Modelled from the spec: the "angular distance" between two directions, \<^verbatim>\<open>Angle\<close> of
  \<^verbatim>\<open>gp_Dir\<close> and \<^verbatim>\<open>gp_Vec\<close> (headers not among the sources): the angle in \<open>[0, \<pi>]\<close>
  whose cosine is the normalised dot product.
\<close>

definition Angle :: "gp_XYZ \<Rightarrow> gp_XYZ \<Rightarrow> real" where
  "Angle a b = arccos (Dot a b / (Modulus a * Modulus b))"

text \<open>Modelled from the spec: \<^verbatim>\<open>gp_Dir::IsEqual\<close>, equality of directions up to an angle.\<close>

definition IsEqual :: "gp_XYZ \<Rightarrow> gp_XYZ \<Rightarrow> real \<Rightarrow> bool" where
  "IsEqual a b theAngularTolerance = (Angle a b \<le> theAngularTolerance)"

text \<open>
  Modelled from the spec: \<^verbatim>\<open>gp_Vec::IsNormal\<close>, "within [the tolerance] of perpendicular":
  the angle between the two differs from a right angle by the tolerance at most.
\<close>

definition IsNormal :: "gp_XYZ \<Rightarrow> gp_XYZ \<Rightarrow> real \<Rightarrow> bool" where
  "IsNormal a b theAngularTolerance = (\<bar>pi / 2 - Angle a b\<bar> \<le> theAngularTolerance)"

text \<open>
  Modelled from the spec: \<^verbatim>\<open>gp_Dir::Rotated\<close> about an axis through the origin, "rotating
  ... around the new view direction": the rotation of \<open>v\<close> by \<open>theAng\<close> about the unit
  direction \<open>k\<close>.
\<close>

definition Rotated :: "gp_XYZ \<Rightarrow> gp_XYZ \<Rightarrow> real \<Rightarrow> gp_XYZ" where
  "Rotated v k theAng =
     Added (Added (Multiplied v (cos theAng)) (Multiplied (Crossed k v) (sin theAng)))
       (Multiplied k (Dot k v * (1 - cos theAng)))"

section \<open>Selection\<close>

datatype SelectionType = Point | Box | Polyline | Unknown

record SelectBasics_SelectingVolumeManager =
  GetActiveSelectionType :: SelectionType
  GetNearPickedPnt :: gp_XYZ
  GetFarPickedPnt :: gp_XYZ

text \<open>
  The owner a sensitive element holds, as the \<^verbatim>\<open>dynamic_cast\<close> of \<^verbatim>\<open>isValidRay\<close> sees it:
  a null handle, an owner of another class, or a view cube owner with its orientation.
\<close>

datatype SelectMgr_EntityOwner =
    NullOwner
  | OtherOwner
  | AIS_ViewCubeOwner V3d_TypeOfOrientation

text \<open>\<^verbatim>\<open>gp_Vec (P1, P2)\<close>, the vector from the first point to the second.\<close>

definition gp_Vec :: "gp_XYZ \<Rightarrow> gp_XYZ \<Rightarrow> gp_XYZ" where
  "gp_Vec p1 p2 = Subtracted p2 p1"

definition isValidRay :: "SelectMgr_EntityOwner \<Rightarrow> SelectBasics_SelectingVolumeManager \<Rightarrow> bool" where
  "isValidRay myOwnerId theMgr =
     (if GetActiveSelectionType theMgr \<noteq> Point then False
      else case myOwnerId of
        AIS_ViewCubeOwner aMainOrientation \<Rightarrow>
          (let anAngleToler = 10 * pi / 180;
               aRay = gp_Vec (GetNearPickedPnt theMgr) (GetFarPickedPnt theMgr);
               aDir = GetProjAxis aMainOrientation
           in \<not> IsNormal aRay aDir anAngleToler)
      | _ \<Rightarrow> True)"

text \<open>
  \<^verbatim>\<open>Matches\<close>: the hit test of the base class (\<open>theBaseMatches\<close>, not among the sources) is
  reached only behind \<^verbatim>\<open>isValidRay\<close>.
\<close>

definition Matches ::
  "(SelectBasics_SelectingVolumeManager \<Rightarrow> bool) \<Rightarrow> SelectMgr_EntityOwner
     \<Rightarrow> SelectBasics_SelectingVolumeManager \<Rightarrow> bool" where
  "Matches theBaseMatches myOwnerId theMgr =
     (if isValidRay myOwnerId theMgr then theBaseMatches theMgr else False)"

section \<open>The camera transition\<close>

definition HasAnimation :: "AIS_ViewCube \<Rightarrow> bool" where
  "HasAnimation c = (\<not> IsStopped (myViewAnimation c))"

text \<open>
  The search for the closest up direction: \<^verbatim>\<open>anUpIter\<close> runs over the four candidates,
  and a candidate replaces the best one only when its angle is strictly smaller.
\<close>

function closestUp_loop ::
  "gp_XYZ list \<Rightarrow> gp_XYZ \<Rightarrow> nat \<Rightarrow> real \<times> gp_XYZ \<Rightarrow> real \<times> gp_XYZ" where
  "closestUp_loop anUpList anOldUp anUpIter (aBestAngle, anUpBest) =
     (if anUpIter < 4
      then (let anAngle = Angle (anUpList ! anUpIter) anOldUp
            in if aBestAngle > anAngle
               then closestUp_loop anUpList anOldUp (anUpIter + 1) (anAngle, anUpList ! anUpIter)
               else closestUp_loop anUpList anOldUp (anUpIter + 1) (aBestAngle, anUpBest))
      else (aBestAngle, anUpBest))"
  by pat_completeness auto
termination
  by (relation "measure (\<lambda>(anUpList, anOldUp, anUpIter, best). 4 - anUpIter)") auto

definition anUpList_of :: "gp_XYZ \<Rightarrow> gp_XYZ \<Rightarrow> gp_XYZ list" where
  "anUpList_of theUp aNewDir =
     [theUp, Rotated theUp aNewDir (pi / 2), Rotated theUp aNewDir pi, Rotated theUp aNewDir (pi * 1.5)]"

text \<open>
  A bounding box is void (\<open>None\<close>) or not. \<^verbatim>\<open>V3d_View::SetProj\<close> and
  \<^verbatim>\<open>V3d_View::FitAll\<close> are not among the sources; they act on the camera the view holds,
  which between the two \<^verbatim>\<open>SetCamera\<close> calls is \<^verbatim>\<open>myEndState\<close>: \<open>theSetProj\<close> and
  \<open>theFitAll\<close> stand for them. \<open>theBndOfSelection\<close> is what the context answers to
  \<^verbatim>\<open>BoundingBoxOfSelection()\<close>, \<open>aView\<close> its last active view, \<open>theOwner\<close> the
  orientation of the owner, or \<open>None\<close> for a null handle.
\<close>

type_synonym Bnd_Box = "(gp_XYZ \<times> gp_XYZ) option"

definition StartAnimation ::
  "(V3d_TypeOfOrientation \<Rightarrow> bool \<Rightarrow> Graphic3d_Camera \<Rightarrow> Graphic3d_Camera)
     \<Rightarrow> (Bnd_Box \<Rightarrow> Graphic3d_Camera \<Rightarrow> Graphic3d_Camera)
     \<Rightarrow> Bnd_Box \<Rightarrow> V3d_View option \<Rightarrow> V3d_TypeOfOrientation option
     \<Rightarrow> AIS_ViewCube \<Rightarrow> AIS_ViewCube" where
  "StartAnimation theSetProj theFitAll theBndOfSelection aView theOwner c =
     (case theOwner of None \<Rightarrow> c | Some aMainOrientation \<Rightarrow>
      case aView of None \<Rightarrow> c | Some v \<Rightarrow>
        (let aStart = Camera v;
             aBackupCamera = Camera v;
             e1 = theSetProj aMainOrientation (myIsYup c) (Camera v);
             aNewDir = Direction e1;
             e2 =
               (if \<not> myToResetCameraUp c
                   \<and> \<not> IsEqual aNewDir (Direction aBackupCamera) Precision_Angular
                then
                  (let anOldUp = Up aBackupCamera;
                       anUpList = anUpList_of (Up e1) aNewDir;
                       anUpBest = snd (closestUp_loop anUpList anOldUp 0 (Precision_Infinite, (1, 0, 0)))
                   in e1\<lparr>Up := anUpBest\<rparr>)
                else e1);
             aBndSelected = (if myToFitSelected c then theBndOfSelection else None);
             e3 = theFitAll aBndSelected e2
         in c\<lparr>myStartState := aStart, myEndState := e3,
              myViewAnimation :=
                \<lparr>View = Some v, CameraStart = aStart, CameraEnd = e3,
                 OwnDuration = myDuration c, IsStopped = False\<rparr>\<rparr>))"

text \<open>
  \<open>aPts\<close> is what \<^verbatim>\<open>myViewAnimation->UpdateTimer()\<close> returns at this call: the time
  elapsed since the timer was started.
\<close>

definition updateAnimation :: "real \<Rightarrow> AIS_ViewCube \<Rightarrow> bool \<times> AIS_ViewCube" where
  "updateAnimation aPts c =
     (if aPts \<ge> myDuration c
      then (False,
            c\<lparr>myViewAnimation := (myViewAnimation c)\<lparr>IsStopped := True, View := None\<rparr>,
              myEvents := myEvents c @ [AnimationFinished]\<rparr>)
      else (True, c))"

definition UpdateAnimation :: "bool \<Rightarrow> real \<Rightarrow> AIS_ViewCube \<Rightarrow> bool \<times> AIS_ViewCube" where
  "UpdateAnimation theToUpdate aPts c =
     (let aView = View (myViewAnimation c)
      in if \<not> HasAnimation c then (False, c)
         else case updateAnimation aPts c of
           (False, c') \<Rightarrow> (False, c')
         | (True, c') \<Rightarrow>
             (True,
              c'\<lparr>myEvents := myEvents c'
                    @ (case aView of
                         None \<Rightarrow> []
                       | Some v \<Rightarrow>
                           if theToUpdate
                           then [if IsInvalidated v then Redraw else RedrawImmediate]
                           else [])
                    @ [AfterAnimation]\<rparr>))"

text \<open>
  The stepped drive: the caller invokes \<^verbatim>\<open>UpdateAnimation\<close> once per frame; \<open>theTicks\<close> are
  the timer's readings at these calls, in order.
\<close>

fun UpdateAnimation_ticks :: "real list \<Rightarrow> AIS_ViewCube \<Rightarrow> AIS_ViewCube" where
  "UpdateAnimation_ticks [] c = c"
| "UpdateAnimation_ticks (aPts # theTicks) c =
     UpdateAnimation_ticks theTicks (snd (UpdateAnimation True aPts c))"

definition nbFinished :: "AIS_ViewCube \<Rightarrow> nat" where
  "nbFinished c = length (filter (\<lambda>e. e = AnimationFinished) (myEvents c))"


section \<open>Facts about the tolerances and the canonical directions\<close>

lemma Resolution_pos: "0 < Resolution"
  by (simp add: Resolution_def)

lemma Resolution_lt_half: "Resolution < 1 / 2"
proof -
  have "(2::real) ^ 1 < 2 ^ 1022"
    by (rule power_strict_increasing) simp_all
  then show ?thesis
    by (simp add: Resolution_def field_simps)
qed

lemma Resolution_lt_1: "Resolution < 1"
  using Resolution_lt_half by linarith

lemma sqrt2_lt_2: "sqrt 2 < 2"
  by (rule real_less_lsqrt) simp_all

lemma sqrt3_lt_2: "sqrt 3 < 2"
  by (rule real_less_lsqrt) simp_all

lemma Resolution_lt_inv_sqrt2: "Resolution < 1 / sqrt 2"
proof -
  have "1 / 2 < 1 / sqrt 2"
    using sqrt2_lt_2 by (simp add: field_simps)
  with Resolution_lt_half show ?thesis by linarith
qed

lemma Resolution_lt_inv_sqrt3: "Resolution < 1 / sqrt 3"
proof -
  have "1 / 2 < 1 / sqrt 3"
    using sqrt3_lt_2 by (simp add: field_simps)
  with Resolution_lt_half show ?thesis by linarith
qed

lemmas Resolution_facts =
  Resolution_pos Resolution_lt_1 Resolution_lt_inv_sqrt2 Resolution_lt_inv_sqrt3

lemma nbDirectionComponents_eq:
  "nbDirectionComponents (x, y, z) =
     (if \<bar>x\<bar> > Resolution then 1 else 0) + (if \<bar>y\<bar> > Resolution then 1 else 0)
       + (if \<bar>z\<bar> > Resolution then 1 else 0)"
  by (simp add: nbDirectionComponents_def Coord_def gp_X_def gp_Y_def gp_Z_def)

lemma nbDirectionComponents_GetProjAxis:
  "nbDirectionComponents (GetProjAxis ori) =
    (case ori of
       V3d_Xpos \<Rightarrow> 1 | V3d_Ypos \<Rightarrow> 1 | V3d_Zpos \<Rightarrow> 1 | V3d_Xneg \<Rightarrow> 1 | V3d_Yneg \<Rightarrow> 1 | V3d_Zneg \<Rightarrow> 1
     | V3d_XposYpos \<Rightarrow> 2 | V3d_XposZpos \<Rightarrow> 2 | V3d_YposZpos \<Rightarrow> 2
     | V3d_XnegYneg \<Rightarrow> 2 | V3d_XnegYpos \<Rightarrow> 2 | V3d_XnegZneg \<Rightarrow> 2 | V3d_XnegZpos \<Rightarrow> 2
     | V3d_YnegZneg \<Rightarrow> 2 | V3d_YnegZpos \<Rightarrow> 2 | V3d_XposYneg \<Rightarrow> 2 | V3d_XposZneg \<Rightarrow> 2
     | V3d_YposZneg \<Rightarrow> 2
     | _ \<Rightarrow> 3)"
  using Resolution_facts
  by (cases ori) (simp_all add: nbDirectionComponents_eq normalized_def Let_def not_less less_imp_le)

lemma all_orientations_UNIV: "set all_orientations = UNIV"
proof -
  have "ori \<in> set all_orientations" for ori
    by (cases ori) (simp_all add: all_orientations_def)
  then show ?thesis by blast
qed


lemma IsBoxSide_iff:
  "IsBoxSide ori = (ori \<in> {V3d_Xpos, V3d_Ypos, V3d_Zpos, V3d_Xneg, V3d_Yneg, V3d_Zneg})"
  unfolding IsBoxSide_def nbDirectionComponents_GetProjAxis
  by (cases ori) simp_all

lemma IsBoxEdge_iff:
  "IsBoxEdge ori = (ori \<in> {V3d_XposYpos, V3d_XposZpos, V3d_YposZpos, V3d_XnegYneg, V3d_XnegYpos,
      V3d_XnegZneg, V3d_XnegZpos, V3d_YnegZneg, V3d_YnegZpos, V3d_XposYneg, V3d_XposZneg,
      V3d_YposZneg})"
  unfolding IsBoxEdge_def nbDirectionComponents_GetProjAxis
  by (cases ori) simp_all

lemma IsBoxCorner_iff:
  "IsBoxCorner ori = (ori \<in> {V3d_XposYposZpos, V3d_XposYnegZpos, V3d_XposYposZneg,
      V3d_XnegYposZpos, V3d_XposYnegZneg, V3d_XnegYposZneg, V3d_XnegYnegZpos, V3d_XnegYnegZneg})"
  unfolding IsBoxCorner_def nbDirectionComponents_GetProjAxis
  by (cases ori) simp_all

lemma all_orientations_length: "length all_orientations = 26 \<and> distinct all_orientations"
    by (simp add: all_orientations_def)

lemma one_classification: "(IsBoxSide ori \<and> \<not> IsBoxEdge ori \<and> \<not> IsBoxCorner ori)
      \<or> (IsBoxEdge ori \<and> \<not> IsBoxSide ori \<and> \<not> IsBoxCorner ori)
      \<or> (IsBoxCorner ori \<and> \<not> IsBoxSide ori \<and> \<not> IsBoxEdge ori)"
  unfolding IsBoxSide_iff IsBoxEdge_iff IsBoxCorner_iff
    by (cases ori) simp_all

lemma classification_counts:  "length (filter IsBoxSide all_orientations) = 6"
    "length (filter IsBoxEdge all_orientations) = 12"
    "length (filter IsBoxCorner all_orientations) = 8"
    by (simp_all add: all_orientations_def IsBoxSide_iff IsBoxEdge_iff IsBoxCorner_iff)

section \<open>The classifier\<close>

text \<open>
  C3. The number of components of a direction is the number of its coordinates whose
  magnitude exceeds the tolerance; an orientation is a side, an edge or a corner when that
  number is 1, 2 or 3 for its direction. The 26 orientations are all there are, each falls
  in exactly one of the three classes, and there are 6 sides, 12 edges and 8 corners.
\<close>

theorem classify_26_directions:
  "nbDirectionComponents (x, y, z) =
       (if \<bar>x\<bar> > Resolution then 1 else 0) + (if \<bar>y\<bar> > Resolution then 1 else 0)
         + (if \<bar>z\<bar> > Resolution then 1 else 0)
   \<and> IsBoxSide ori = (nbDirectionComponents (GetProjAxis ori) = 1)
   \<and> IsBoxEdge ori = (nbDirectionComponents (GetProjAxis ori) = 2)
   \<and> IsBoxCorner ori = (nbDirectionComponents (GetProjAxis ori) = 3)
   \<and> length all_orientations = 26 \<and> distinct all_orientations
   \<and> set all_orientations = UNIV
   \<and> length (filter IsBoxSide all_orientations) = 6
   \<and> length (filter IsBoxEdge all_orientations) = 12
   \<and> length (filter IsBoxCorner all_orientations) = 8
   \<and> ((IsBoxSide ori \<and> \<not> IsBoxEdge ori \<and> \<not> IsBoxCorner ori)
      \<or> (IsBoxEdge ori \<and> \<not> IsBoxSide ori \<and> \<not> IsBoxCorner ori)
      \<or> (IsBoxCorner ori \<and> \<not> IsBoxSide ori \<and> \<not> IsBoxEdge ori))"
proof (intro conjI)
  show "(IsBoxSide ori \<and> \<not> IsBoxEdge ori \<and> \<not> IsBoxCorner ori)
      \<or> (IsBoxEdge ori \<and> \<not> IsBoxSide ori \<and> \<not> IsBoxCorner ori)
      \<or> (IsBoxCorner ori \<and> \<not> IsBoxSide ori \<and> \<not> IsBoxEdge ori)"
    by (rule one_classification)
qed (simp_all only: nbDirectionComponents_eq IsBoxSide_def IsBoxEdge_def IsBoxCorner_def
       classification_counts all_orientations_length all_orientations_UNIV)

theorem classify_26_directions_witness:
  "nbDirectionComponents (0, 1 / 2, - 3) = 2
   \<and> IsBoxEdge V3d_XposYneg \<and> \<not> IsBoxSide V3d_XposYneg \<and> \<not> IsBoxCorner V3d_XposYneg
   \<and> length (filter IsBoxCorner all_orientations) = 8"
  using classify_26_directions [of 0 "1 / 2" "- 3" V3d_XposYneg] Resolution_lt_half Resolution_pos
  by (simp add: IsBoxSide_iff IsBoxEdge_iff IsBoxCorner_iff not_less less_imp_le)

section \<open>Facts about triangle arrays and the loops of the builders\<close>

lemma AddVertex_simps:
  "Vertices (AddVertex p t) = Vertices t @ [p]"
  "Normals (AddVertex p t) = Normals t @ [(0, 0, 0)]"
  "Edges (AddVertex p t) = Edges t"
  "maxVertexs (AddVertex p t) = maxVertexs t"
  "maxEdges (AddVertex p t) = maxEdges t"
  "VertexNumber (AddVertex p t) = VertexNumber t + 1"
  by (simp_all add: AddVertex_def VertexNumber_def)

lemma AddEdge_simps:
  "Vertices (AddEdge i t) = Vertices t"
  "Normals (AddEdge i t) = Normals t"
  "Edges (AddEdge i t) = Edges t @ [i]"
  "maxVertexs (AddEdge i t) = maxVertexs t"
  "maxEdges (AddEdge i t) = maxEdges t"
  "VertexNumber (AddEdge i t) = VertexNumber t"
  by (simp_all add: AddEdge_def VertexNumber_def)

lemma AddEdges_simps:
  "Vertices (AddEdges i j k t) = Vertices t"
  "Normals (AddEdges i j k t) = Normals t"
  "Edges (AddEdges i j k t) = Edges t @ [i, j, k]"
  "maxVertexs (AddEdges i j k t) = maxVertexs t"
  "maxEdges (AddEdges i j k t) = maxEdges t"
  "VertexNumber (AddEdges i j k t) = VertexNumber t"
  by (simp_all add: AddEdges_def AddEdge_simps)

lemma new_ArrayOfTriangles_simps:
  "Vertices (new_ArrayOfTriangles a b) = []"
  "Normals (new_ArrayOfTriangles a b) = []"
  "Edges (new_ArrayOfTriangles a b) = []"
  "maxVertexs (new_ArrayOfTriangles a b) = a"
  "maxEdges (new_ArrayOfTriangles a b) = b"
  "VertexNumber (new_ArrayOfTriangles a b) = 0"
  by (simp_all add: new_ArrayOfTriangles_def VertexNumber_def)

lemma SetVertexNormal_simps:
  "Vertices (SetVertexNormal i n t) = Vertices t"
  "Edges (SetVertexNormal i n t) = Edges t"
  "maxVertexs (SetVertexNormal i n t) = maxVertexs t"
  "maxEdges (SetVertexNormal i n t) = maxEdges t"
  "VertexNumber (SetVertexNormal i n t) = VertexNumber t"
  "length (Normals (SetVertexNormal i n t)) = length (Normals t)"
  by (simp_all add: SetVertexNormal_def VertexNumber_def)

declare setNormals_loop.simps [simp del] arc_loop.simps [simp del] fan_loop.simps [simp del]

lemma setNormals_loop_frame:
  "Vertices (setNormals_loop n i t) = Vertices t \<and> Edges (setNormals_loop n i t) = Edges t
   \<and> maxVertexs (setNormals_loop n i t) = maxVertexs t
   \<and> maxEdges (setNormals_loop n i t) = maxEdges t
   \<and> length (Normals (setNormals_loop n i t)) = length (Normals t)"
proof (induction n i t rule: setNormals_loop.induct)
  case (1 theNorm aVertIter aTris)
  show ?case
  proof (cases "aVertIter \<le> VertexNumber aTris")
    case True
    with 1 show ?thesis
      by (subst (1 2 3 4 5) setNormals_loop.simps) (simp add: SetVertexNormal_simps)
  next
    case False
    then show ?thesis
      by (subst (1 2 3 4 5) setNormals_loop.simps) simp
  qed
qed

lemma setNormals_loop_Normals:
  "1 \<le> i \<Longrightarrow> length (Normals t) = VertexNumber t \<Longrightarrow> j < VertexNumber t \<Longrightarrow>
   Normals (setNormals_loop n i t) ! j = (if i - 1 \<le> j then n else Normals t ! j)"
proof (induction n i t rule: setNormals_loop.induct)
  case (1 theNorm aVertIter aTris)
  show ?case
  proof (cases "aVertIter \<le> VertexNumber aTris")
    case True
    have "Normals (setNormals_loop theNorm (aVertIter + 1) (SetVertexNormal aVertIter theNorm aTris)) ! j
        = (if aVertIter + 1 - 1 \<le> j then theNorm else Normals (SetVertexNormal aVertIter theNorm aTris) ! j)"
      using 1 True by (intro "1.IH") (simp_all add: SetVertexNormal_simps)
    then show ?thesis
      using True 1(2,3,4)
      by (subst setNormals_loop.simps) (auto simp: SetVertexNormal_def VertexNumber_def nth_list_update)
  next
    case False
    then show ?thesis
      using 1(2,3,4) by (subst setNormals_loop.simps) auto
  qed
qed

lemma arc_loop_Vertices:
  "aNodeIter \<le> THE_NB_ROUND_SPLITS + 1 \<Longrightarrow>
   Vertices (arc_loop theTrsf aRadius cx cy a0 a1 aNodeIter aTris) =
     Vertices aTris @ map (arcVertex theTrsf aRadius cx cy a0 a1) [aNodeIter ..< THE_NB_ROUND_SPLITS + 1]"
proof (induction theTrsf aRadius cx cy a0 a1 aNodeIter aTris rule: arc_loop.induct)
  case (1 theTrsf aRadius cx cy a0 a1 aNodeIter aTris)
  show ?case
  proof (cases "aNodeIter \<le> THE_NB_ROUND_SPLITS")
    case True
    then have "[aNodeIter ..< THE_NB_ROUND_SPLITS + 1] = aNodeIter # [aNodeIter + 1 ..< THE_NB_ROUND_SPLITS + 1]"
      by (simp add: upt_conv_Cons)
    with 1 True show ?thesis
      by (subst arc_loop.simps) (simp add: AddVertex_simps)
  next
    case False
    with 1 show ?thesis
      by (subst arc_loop.simps) simp
  qed
qed

lemma arc_loop_frame:
  "Edges (arc_loop theTrsf aRadius cx cy a0 a1 aNodeIter aTris) = Edges aTris
   \<and> Normals (arc_loop theTrsf aRadius cx cy a0 a1 aNodeIter aTris)
       = Normals aTris @ replicate (THE_NB_ROUND_SPLITS + 1 - aNodeIter) (0, 0, 0)
   \<and> maxVertexs (arc_loop theTrsf aRadius cx cy a0 a1 aNodeIter aTris) = maxVertexs aTris
   \<and> maxEdges (arc_loop theTrsf aRadius cx cy a0 a1 aNodeIter aTris) = maxEdges aTris"
proof (induction theTrsf aRadius cx cy a0 a1 aNodeIter aTris rule: arc_loop.induct)
  case (1 theTrsf aRadius cx cy a0 a1 aNodeIter aTris)
  show ?case
  proof (cases "aNodeIter \<le> THE_NB_ROUND_SPLITS")
    case True
    then have "THE_NB_ROUND_SPLITS + 1 - aNodeIter = Suc (THE_NB_ROUND_SPLITS - aNodeIter)"
      by simp
    with 1 True show ?thesis
      by (subst (1 2 3 4) arc_loop.simps) (simp add: AddVertex_simps replicate_append_same)
  next
    case False
    then show ?thesis
      by (subst (1 2 3 4) arc_loop.simps) simp
  qed
qed

lemma fan_loop_frame:
  "Vertices (fan_loop i t) = Vertices t \<and> Normals (fan_loop i t) = Normals t
   \<and> maxVertexs (fan_loop i t) = maxVertexs t \<and> maxEdges (fan_loop i t) = maxEdges t"
proof (induction i t rule: fan_loop.induct)
  case (1 aNodeIter aTris)
  show ?case
  proof (cases "aNodeIter \<le> VertexNumber aTris")
    case True
    with 1 show ?thesis
      by (subst (1 2 3 4) fan_loop.simps) (simp add: AddEdge_simps)
  next
    case False
    then show ?thesis
      by (subst (1 2 3 4) fan_loop.simps) simp
  qed
qed

lemma fan_loop_Edges:
  "i \<le> VertexNumber t + 1 \<Longrightarrow>
   Edges (fan_loop i t) = Edges t @ concat (map (\<lambda>j. [1, j - 1, j]) [i ..< VertexNumber t + 1])"
proof (induction i t rule: fan_loop.induct)
  case (1 aNodeIter aTris)
  show ?case
  proof (cases "aNodeIter \<le> VertexNumber aTris")
    case True
    then have "[aNodeIter ..< VertexNumber aTris + 1] = aNodeIter # [aNodeIter + 1 ..< VertexNumber aTris + 1]"
      by (simp add: upt_conv_Cons)
    with 1 True show ?thesis
      by (subst fan_loop.simps) (simp add: AddEdge_simps)
  next
    case False
    with 1 show ?thesis
      by (subst fan_loop.simps) simp
  qed
qed

lemma createRoundRectangleTriangles_round:
  assumes "rect_aRadius theSize theRadius > 0"
  shows "Vertices (createRoundRectangleTriangles theSize theRadius theTrsf) =
           Pnt_Transformed theTrsf (0, 0, 0)
           # map (arcVertex theTrsf (rect_aRadius theSize theRadius)
                    (fst (rect_aHSize theSize theRadius)) (snd (rect_aHSize theSize theRadius))
                    (pi * 0.5) 0) [0 ..< THE_NB_ROUND_SPLITS + 1]
           @ map (arcVertex theTrsf (rect_aRadius theSize theRadius)
                    (fst (rect_aHSize theSize theRadius)) (- snd (rect_aHSize theSize theRadius))
                    0 (- pi * 0.5)) [0 ..< THE_NB_ROUND_SPLITS + 1]
           @ map (arcVertex theTrsf (rect_aRadius theSize theRadius)
                    (- fst (rect_aHSize theSize theRadius)) (- snd (rect_aHSize theSize theRadius))
                    (- pi * 0.5) (- pi)) [0 ..< THE_NB_ROUND_SPLITS + 1]
           @ map (arcVertex theTrsf (rect_aRadius theSize theRadius)
                    (- fst (rect_aHSize theSize theRadius)) (snd (rect_aHSize theSize theRadius))
                    (- pi) (- pi * 1.5)) [0 ..< THE_NB_ROUND_SPLITS + 1]"
    and "Edges (createRoundRectangleTriangles theSize theRadius theTrsf) =
           concat (map (\<lambda>j. [1, j - 1, j]) [2 ..< (THE_NB_ROUND_SPLITS + 1) * 4 + 1 + 1])
           @ [1, (THE_NB_ROUND_SPLITS + 1) * 4 + 1, 2]"
    and "maxVertexs (createRoundRectangleTriangles theSize theRadius theTrsf)
           = (THE_NB_ROUND_SPLITS + 1) * 4 + 1"
    and "maxEdges (createRoundRectangleTriangles theSize theRadius theTrsf)
           = ((THE_NB_ROUND_SPLITS + 1) * 4 + 1) * 3"
proof -
  define aRadius where "aRadius = rect_aRadius theSize theRadius"
  define hx where "hx = fst (rect_aHSize theSize theRadius)"
  define hy where "hy = snd (rect_aHSize theSize theRadius)"
  define n where "n = (THE_NB_ROUND_SPLITS + 1) * 4 + 1"
  define t5 where "t5 =
    arc_loop theTrsf aRadius (- hx) hy (- pi) (- pi * 1.5) 0
     (arc_loop theTrsf aRadius (- hx) (- hy) (- pi * 0.5) (- pi) 0
       (arc_loop theTrsf aRadius hx (- hy) 0 (- pi * 0.5) 0
         (arc_loop theTrsf aRadius hx hy (pi * 0.5) 0 0
           (AddVertex (Pnt_Transformed theTrsf (0, 0, 0)) (new_ArrayOfTriangles n (n * 3))))))"
  define t6 where "t6 = fan_loop 2 t5"
  have create: "createRoundRectangleTriangles theSize theRadius theTrsf =
      setNormals_loop (Reversed (Dir_Transformed theTrsf (0, 0, 1))) 1
        (AddEdge 2 (AddEdge (VertexNumber t6) (AddEdge 1 t6)))"
    unfolding createRoundRectangleTriangles_def Let_def t6_def t5_def n_def aRadius_def
      hx_def hy_def
    by (simp only: assms if_True)
  have v5: "Vertices t5 =
           Pnt_Transformed theTrsf (0, 0, 0)
           # map (arcVertex theTrsf aRadius hx hy (pi * 0.5) 0) [0 ..< THE_NB_ROUND_SPLITS + 1]
           @ map (arcVertex theTrsf aRadius hx (- hy) 0 (- pi * 0.5)) [0 ..< THE_NB_ROUND_SPLITS + 1]
           @ map (arcVertex theTrsf aRadius (- hx) (- hy) (- pi * 0.5) (- pi)) [0 ..< THE_NB_ROUND_SPLITS + 1]
           @ map (arcVertex theTrsf aRadius (- hx) hy (- pi) (- pi * 1.5)) [0 ..< THE_NB_ROUND_SPLITS + 1]"
    unfolding t5_def
    by (simp only: arc_loop_Vertices le0 AddVertex_simps new_ArrayOfTriangles_simps append_Nil
          append_Cons append_assoc)
  have n5: "VertexNumber t5 = n"
    unfolding VertexNumber_def v5 n_def by simp
  have e5: "Edges t5 = []" and m5: "maxVertexs t5 = n" "maxEdges t5 = n * 3"
    unfolding t5_def
    by (simp_all only: arc_loop_frame AddVertex_simps new_ArrayOfTriangles_simps)
  have v6: "Vertices t6 = Vertices t5" and m6: "maxVertexs t6 = n" "maxEdges t6 = n * 3"
    unfolding t6_def by (simp_all only: fan_loop_frame m5)
  have n6: "VertexNumber t6 = n"
    using n5 v6 by (simp add: VertexNumber_def)
  have e6: "Edges t6 = concat (map (\<lambda>j. [1, j - 1, j]) [2 ..< n + 1])"
  proof -
    have "2 \<le> VertexNumber t5 + 1"
      unfolding n5 n_def by simp
    then show ?thesis
      unfolding t6_def by (simp only: fan_loop_Edges e5 n5 append_Nil)
  qed
  show "Vertices (createRoundRectangleTriangles theSize theRadius theTrsf) =
           Pnt_Transformed theTrsf (0, 0, 0)
           # map (arcVertex theTrsf (rect_aRadius theSize theRadius)
                    (fst (rect_aHSize theSize theRadius)) (snd (rect_aHSize theSize theRadius))
                    (pi * 0.5) 0) [0 ..< THE_NB_ROUND_SPLITS + 1]
           @ map (arcVertex theTrsf (rect_aRadius theSize theRadius)
                    (fst (rect_aHSize theSize theRadius)) (- snd (rect_aHSize theSize theRadius))
                    0 (- pi * 0.5)) [0 ..< THE_NB_ROUND_SPLITS + 1]
           @ map (arcVertex theTrsf (rect_aRadius theSize theRadius)
                    (- fst (rect_aHSize theSize theRadius)) (- snd (rect_aHSize theSize theRadius))
                    (- pi * 0.5) (- pi)) [0 ..< THE_NB_ROUND_SPLITS + 1]
           @ map (arcVertex theTrsf (rect_aRadius theSize theRadius)
                    (- fst (rect_aHSize theSize theRadius)) (snd (rect_aHSize theSize theRadius))
                    (- pi) (- pi * 1.5)) [0 ..< THE_NB_ROUND_SPLITS + 1]"
    unfolding create
    by (simp only: setNormals_loop_frame AddEdge_simps v6 v5 aRadius_def hx_def hy_def)
  show "Edges (createRoundRectangleTriangles theSize theRadius theTrsf) =
           concat (map (\<lambda>j. [1, j - 1, j]) [2 ..< (THE_NB_ROUND_SPLITS + 1) * 4 + 1 + 1])
           @ [1, (THE_NB_ROUND_SPLITS + 1) * 4 + 1, 2]"
    unfolding create
    by (simp only: setNormals_loop_frame AddEdge_simps e6 n6 append_assoc append_Cons append_Nil)
       (simp only: n_def)
  show "maxVertexs (createRoundRectangleTriangles theSize theRadius theTrsf)
           = (THE_NB_ROUND_SPLITS + 1) * 4 + 1"
    unfolding create by (simp only: setNormals_loop_frame AddEdge_simps m6 n_def)
  show "maxEdges (createRoundRectangleTriangles theSize theRadius theTrsf)
           = ((THE_NB_ROUND_SPLITS + 1) * 4 + 1) * 3"
    unfolding create by (simp only: setNormals_loop_frame AddEdge_simps m6 n_def)
qed

lemma createRoundRectangleTriangles_sharp:
  assumes "\<not> rect_aRadius theSize theRadius > 0"
  shows "Vertices (createRoundRectangleTriangles theSize theRadius theTrsf) =
           [Pnt_Transformed theTrsf (- fst (rect_aHSize theSize theRadius), - snd (rect_aHSize theSize theRadius), 0),
            Pnt_Transformed theTrsf (- fst (rect_aHSize theSize theRadius), snd (rect_aHSize theSize theRadius), 0),
            Pnt_Transformed theTrsf (fst (rect_aHSize theSize theRadius), snd (rect_aHSize theSize theRadius), 0),
            Pnt_Transformed theTrsf (fst (rect_aHSize theSize theRadius), - snd (rect_aHSize theSize theRadius), 0)]"
    and "Edges (createRoundRectangleTriangles theSize theRadius theTrsf) = [3, 1, 2, 1, 3, 4]"
    and "maxVertexs (createRoundRectangleTriangles theSize theRadius theTrsf) = 4"
    and "maxEdges (createRoundRectangleTriangles theSize theRadius theTrsf) = 6"
  using assms
  by (simp_all add: createRoundRectangleTriangles_def Let_def setNormals_loop_frame
        AddEdges_simps AddVertex_simps new_ArrayOfTriangles_simps)

lemma length_concat_triples: "length (concat (map (\<lambda>j. [a, f j, g j]) xs)) = 3 * length xs"
  by (induction xs) simp_all

lemma rect_aRadius_pos: "0 < w \<Longrightarrow> 0 < h \<Longrightarrow> 0 < r \<Longrightarrow> 0 < rect_aRadius (w, h) r"
  by (simp add: rect_aRadius_def)

lemma rect_sharp_values:
  "0 < w \<Longrightarrow> 0 < h \<Longrightarrow> rect_aRadius (w, h) 0 = 0 \<and> rect_aHSize (w, h) 0 = (w / 2, h / 2)"
  by (simp add: rect_aRadius_def rect_aHSize_def)

lemma Pnt_Transformed_identity: "Pnt_Transformed identity_Trsf (x, y, z) = (x, y, z)"
  by (simp add: Pnt_Transformed_def Dir_Transformed_def identity_Trsf_def Added_def Multiplied_def
        gp_X_def gp_Y_def gp_Z_def)


section \<open>The rounded rectangle: vertices and triangles\<close>

text \<open>
  C2. For a positive width, height and radius and any placement, the rounded rectangle has
  \<open>4 \<times> (N + 1) + 1\<close> vertices, where \<open>N\<close> is \<^verbatim>\<open>THE_NB_ROUND_SPLITS\<close>: the centre, then four
  quarter arcs of \<open>N + 1\<close> vertices each. Its triangles are a fan about vertex 1: one
  triangle \<open>(1, j - 1, j)\<close> for every \<open>j\<close> from 2 to the last vertex, and a last triangle
  that joins the last vertex back to vertex 2, the first vertex of the first arc. Vertices
  and edges fill the allocated capacities exactly.
\<close>

theorem rounded_rectangle_fan:
  assumes "0 < w" and "0 < h" and "0 < r"
  shows
    "VertexNumber (createRoundRectangleTriangles (w, h) r theTrsf) = 4 * (THE_NB_ROUND_SPLITS + 1) + 1
     \<and> Vertices (createRoundRectangleTriangles (w, h) r theTrsf) =
         Pnt_Transformed theTrsf (0, 0, 0)
         # map (arcVertex theTrsf (rect_aRadius (w, h) r)
                  (fst (rect_aHSize (w, h) r)) (snd (rect_aHSize (w, h) r))
                  (pi * 0.5) 0) [0 ..< THE_NB_ROUND_SPLITS + 1]
         @ map (arcVertex theTrsf (rect_aRadius (w, h) r)
                  (fst (rect_aHSize (w, h) r)) (- snd (rect_aHSize (w, h) r))
                  0 (- pi * 0.5)) [0 ..< THE_NB_ROUND_SPLITS + 1]
         @ map (arcVertex theTrsf (rect_aRadius (w, h) r)
                  (- fst (rect_aHSize (w, h) r)) (- snd (rect_aHSize (w, h) r))
                  (- pi * 0.5) (- pi)) [0 ..< THE_NB_ROUND_SPLITS + 1]
         @ map (arcVertex theTrsf (rect_aRadius (w, h) r)
                  (- fst (rect_aHSize (w, h) r)) (snd (rect_aHSize (w, h) r))
                  (- pi) (- pi * 1.5)) [0 ..< THE_NB_ROUND_SPLITS + 1]
     \<and> Edges (createRoundRectangleTriangles (w, h) r theTrsf) =
         concat (map (\<lambda>j. [1, j - 1, j])
                   [2 ..< VertexNumber (createRoundRectangleTriangles (w, h) r theTrsf) + 1])
         @ [1, VertexNumber (createRoundRectangleTriangles (w, h) r theTrsf), 2]
     \<and> VertexNumber (createRoundRectangleTriangles (w, h) r theTrsf)
         = maxVertexs (createRoundRectangleTriangles (w, h) r theTrsf)
     \<and> length (Edges (createRoundRectangleTriangles (w, h) r theTrsf))
         = maxEdges (createRoundRectangleTriangles (w, h) r theTrsf)"
proof -
  let ?m = "createRoundRectangleTriangles (w, h) r theTrsf"
  have pos: "0 < rect_aRadius (w, h) r"
    using assms by (rule rect_aRadius_pos)
  note facts = createRoundRectangleTriangles_round [OF pos, of theTrsf]
  have n: "VertexNumber ?m = (THE_NB_ROUND_SPLITS + 1) * 4 + 1"
    unfolding VertexNumber_def facts(1) by simp
  have e: "Edges ?m = concat (map (\<lambda>j. [1, j - 1, j]) [2 ..< VertexNumber ?m + 1])
             @ [1, VertexNumber ?m, 2]"
    unfolding n by (rule facts(2))
  have l: "length (Edges ?m) = maxEdges ?m"
    unfolding facts(2) facts(4) by (simp add: length_concat_triples)
  have n': "VertexNumber ?m = 4 * (THE_NB_ROUND_SPLITS + 1) + 1"
    unfolding n by simp
  have mv: "VertexNumber ?m = maxVertexs ?m"
    unfolding n facts(3) by (rule refl)
  show ?thesis
    using n' facts(1) e mv l by (intro conjI)
qed

theorem rounded_rectangle_fan_witness:
  "(0::real) < 4 \<and> (0::real) < 2 \<and> (0::real) < 1 / 2
   \<and> VertexNumber (createRoundRectangleTriangles (4, 2) (1 / 2) identity_Trsf) = 37
   \<and> Edges (createRoundRectangleTriangles (4, 2) (1 / 2) identity_Trsf) =
        concat (map (\<lambda>j. [1, j - 1, j]) [2 ..< 37 + 1]) @ [1, 37, 2]
   \<and> length (Edges (createRoundRectangleTriangles (4, 2) (1 / 2) identity_Trsf)) = 111"
proof -
  have h: "(0::real) < 4" "(0::real) < 2" "(0::real) < 1 / 2"
    by simp_all
  note t = rounded_rectangle_fan [OF h, of identity_Trsf]
  have n: "VertexNumber (createRoundRectangleTriangles (4, 2) (1 / 2) identity_Trsf) = 37"
    using t by (simp add: THE_NB_ROUND_SPLITS_def)
  have e: "Edges (createRoundRectangleTriangles (4, 2) (1 / 2) identity_Trsf) =
        concat (map (\<lambda>j. [1, j - 1, j]) [2 ..< 37 + 1]) @ [1, 37, 2]"
    using t [unfolded n] by (elim conjE)
  have l: "length (Edges (createRoundRectangleTriangles (4, 2) (1 / 2) identity_Trsf)) = 111"
    unfolding e by (simp add: length_concat_triples)
  show ?thesis
    using h n e l by (intro conjI)
qed


text \<open>
  C7. For a positive width and height, radius 0 and any placement, the rectangle has exactly
  the four vertices that the placement makes of \<open>(\<plusminus>w/2, \<plusminus>h/2, 0)\<close>, taken around the
  quad, and the two triangles \<open>(3, 1, 2)\<close> and \<open>(1, 3, 4)\<close>, which split the quad along
  the diagonal from vertex 1 to vertex 3; the sides of the quad are \<open>w\<close> and \<open>h\<close> long.
\<close>

theorem sharp_rectangle_quad:
  assumes "0 < w" and "0 < h"
  shows
    "Vertices (createRoundRectangleTriangles (w, h) 0 theTrsf) =
       [Pnt_Transformed theTrsf (- (w / 2), - (h / 2), 0),
        Pnt_Transformed theTrsf (- (w / 2), h / 2, 0),
        Pnt_Transformed theTrsf (w / 2, h / 2, 0),
        Pnt_Transformed theTrsf (w / 2, - (h / 2), 0)]
     \<and> VertexNumber (createRoundRectangleTriangles (w, h) 0 theTrsf) = 4
     \<and> Edges (createRoundRectangleTriangles (w, h) 0 theTrsf) = [3, 1, 2, 1, 3, 4]
     \<and> length (Edges (createRoundRectangleTriangles (w, h) 0 theTrsf)) = 2 * 3
     \<and> Modulus (Subtracted (w / 2, h / 2, 0) (- (w / 2), h / 2, 0)) = w
     \<and> Modulus (Subtracted (- (w / 2), h / 2, 0) (- (w / 2), - (h / 2), 0)) = h
     \<and> Modulus (Subtracted (w / 2, - (h / 2), 0) (- (w / 2), - (h / 2), 0)) = w
     \<and> Modulus (Subtracted (w / 2, h / 2, 0) (w / 2, - (h / 2), 0)) = h"
proof -
  let ?m = "createRoundRectangleTriangles (w, h) 0 theTrsf"
  have v: "rect_aRadius (w, h) 0 = 0" "rect_aHSize (w, h) 0 = (w / 2, h / 2)"
    using rect_sharp_values [OF assms] by simp_all
  have np: "\<not> rect_aRadius (w, h) 0 > 0"
    using v by simp
  note facts = createRoundRectangleTriangles_sharp [OF np, of theTrsf]
  have vs: "Vertices ?m =
       [Pnt_Transformed theTrsf (- (w / 2), - (h / 2), 0),
        Pnt_Transformed theTrsf (- (w / 2), h / 2, 0),
        Pnt_Transformed theTrsf (w / 2, h / 2, 0),
        Pnt_Transformed theTrsf (w / 2, - (h / 2), 0)]"
    unfolding facts(1) v by simp
  have n: "VertexNumber ?m = 4"
    unfolding VertexNumber_def vs by simp
  have l: "length (Edges ?m) = 2 * 3"
    unfolding facts(2) by simp
  have d: "Modulus (Subtracted (w / 2, h / 2, 0) (- (w / 2), h / 2, 0)) = w"
      "Modulus (Subtracted (- (w / 2), h / 2, 0) (- (w / 2), - (h / 2), 0)) = h"
      "Modulus (Subtracted (w / 2, - (h / 2), 0) (- (w / 2), - (h / 2), 0)) = w"
      "Modulus (Subtracted (w / 2, h / 2, 0) (w / 2, - (h / 2), 0)) = h"
    using assms
    by (simp_all add: Modulus_def Subtracted_def gp_X_def gp_Y_def gp_Z_def)
  show ?thesis
    using vs n facts(2) l d by (intro conjI)
qed

theorem sharp_rectangle_quad_witness:
  "(0::real) < 70 \<and> (0::real) < 70
   \<and> Vertices (createRoundRectangleTriangles (70, 70) 0 identity_Trsf) =
        [(- 35, - 35, 0), (- 35, 35, 0), (35, 35, 0), (35, - 35, 0)]
   \<and> Edges (createRoundRectangleTriangles (70, 70) 0 identity_Trsf) = [3, 1, 2, 1, 3, 4]"
proof -
  have h: "(0::real) < 70" "(0::real) < 70"
    by simp_all
  show ?thesis
    using sharp_rectangle_quad [OF h, of identity_Trsf]
    by (simp add: Pnt_Transformed_identity)
qed

section \<open>The clamped radius\<close>

lemma createRoundRectangleTriangles_Vertices:
  "Vertices (createRoundRectangleTriangles theSize theRadius theTrsf) =
     (if rect_aRadius theSize theRadius > 0 then
        Pnt_Transformed theTrsf (0, 0, 0)
        # map (arcVertex theTrsf (rect_aRadius theSize theRadius)
                 (fst (rect_aHSize theSize theRadius)) (snd (rect_aHSize theSize theRadius))
                 (pi * 0.5) 0) [0 ..< THE_NB_ROUND_SPLITS + 1]
        @ map (arcVertex theTrsf (rect_aRadius theSize theRadius)
                 (fst (rect_aHSize theSize theRadius)) (- snd (rect_aHSize theSize theRadius))
                 0 (- pi * 0.5)) [0 ..< THE_NB_ROUND_SPLITS + 1]
        @ map (arcVertex theTrsf (rect_aRadius theSize theRadius)
                 (- fst (rect_aHSize theSize theRadius)) (- snd (rect_aHSize theSize theRadius))
                 (- pi * 0.5) (- pi)) [0 ..< THE_NB_ROUND_SPLITS + 1]
        @ map (arcVertex theTrsf (rect_aRadius theSize theRadius)
                 (- fst (rect_aHSize theSize theRadius)) (snd (rect_aHSize theSize theRadius))
                 (- pi) (- pi * 1.5)) [0 ..< THE_NB_ROUND_SPLITS + 1]
      else
        [Pnt_Transformed theTrsf (- fst (rect_aHSize theSize theRadius), - snd (rect_aHSize theSize theRadius), 0),
         Pnt_Transformed theTrsf (- fst (rect_aHSize theSize theRadius), snd (rect_aHSize theSize theRadius), 0),
         Pnt_Transformed theTrsf (fst (rect_aHSize theSize theRadius), snd (rect_aHSize theSize theRadius), 0),
         Pnt_Transformed theTrsf (fst (rect_aHSize theSize theRadius), - snd (rect_aHSize theSize theRadius), 0)])"
proof (cases "rect_aRadius theSize theRadius > 0")
  case True
  show ?thesis
    unfolding createRoundRectangleTriangles_round(1) [OF True] using True by simp
next
  case False
  show ?thesis
    unfolding createRoundRectangleTriangles_sharp(1) [OF False] using False by simp
qed


lemma upt_round_splits: "[0 ..< THE_NB_ROUND_SPLITS + 1] = [0, 1, 2, 3, 4, 5, 6, 7, 8]"
  by (simp add: THE_NB_ROUND_SPLITS_def upt_conv_Cons)

lemma arcVertex_identity:
  "arcVertex identity_Trsf aRadius cx cy a0 a1 j =
     (cx + aRadius * cos (Interpolate a0 a1 (real j / real THE_NB_ROUND_SPLITS)),
      cy + aRadius * sin (Interpolate a0 a1 (real j / real THE_NB_ROUND_SPLITS)), 0)"
  by (simp add: arcVertex_def Let_def Pnt_Transformed_identity)

lemma arcVertex_placement:
  "arcVertex theTrsf aRadius cx cy a0 a1 j =
     Pnt_Transformed theTrsf (arcVertex identity_Trsf aRadius cx cy a0 a1 j)"
  unfolding arcVertex_identity by (simp add: arcVertex_def Let_def)

lemma createRoundRectangleTriangles_placement:
  "Vertices (createRoundRectangleTriangles theSize theRadius theTrsf) =
     map (Pnt_Transformed theTrsf)
       (Vertices (createRoundRectangleTriangles theSize theRadius identity_Trsf))"
proof (cases "rect_aRadius theSize theRadius > 0")
  case True
  show ?thesis
    unfolding createRoundRectangleTriangles_round(1) [OF True]
    by (simp add: Pnt_Transformed_identity arcVertex_placement [of theTrsf] o_def)
next
  case False
  show ?thesis
    unfolding createRoundRectangleTriangles_sharp(1) [OF False]
    by (simp add: Pnt_Transformed_identity)
qed

lemma arcVertex_in_box:
  assumes "0 \<le> aRadius" and "\<bar>cx\<bar> + aRadius \<le> W" and "\<bar>cy\<bar> + aRadius \<le> H"
  shows "\<bar>gp_X (arcVertex identity_Trsf aRadius cx cy a0 a1 j)\<bar> \<le> W
       \<and> \<bar>gp_Y (arcVertex identity_Trsf aRadius cx cy a0 a1 j)\<bar> \<le> H
       \<and> gp_Z (arcVertex identity_Trsf aRadius cx cy a0 a1 j) = 0"
proof -
  define a where "a = Interpolate a0 a1 (real j / real THE_NB_ROUND_SPLITS)"
  have c: "\<bar>aRadius * cos a\<bar> \<le> aRadius" and s: "\<bar>aRadius * sin a\<bar> \<le> aRadius"
    using assms(1) abs_cos_le_one [of a] abs_sin_le_one [of a]
    by (simp_all add: abs_mult mult_left_le)
  have "\<bar>cx + aRadius * cos a\<bar> \<le> \<bar>cx\<bar> + \<bar>aRadius * cos a\<bar>"
       "\<bar>cy + aRadius * sin a\<bar> \<le> \<bar>cy\<bar> + \<bar>aRadius * sin a\<bar>"
    by (rule abs_triangle_ineq)+
  with c s assms(2,3) show ?thesis
    unfolding arcVertex_identity a_def [symmetric] gp_X_def gp_Y_def gp_Z_def by simp
qed

lemma createRoundRectangleTriangles_in_box:
  assumes "0 \<le> w" and "0 \<le> h" and "0 \<le> r"
  shows "list_all (\<lambda>p. \<bar>gp_X p\<bar> \<le> w / 2 \<and> \<bar>gp_Y p\<bar> \<le> h / 2 \<and> gp_Z p = 0)
           (Vertices (createRoundRectangleTriangles (w, h) r identity_Trsf))"
proof -
  define ar where "ar = rect_aRadius (w, h) r"
  define hx where "hx = fst (rect_aHSize (w, h) r)"
  define hy where "hy = snd (rect_aHSize (w, h) r)"
  have ar: "0 \<le> ar" "ar \<le> w / 2" "ar \<le> h / 2"
    using assms unfolding ar_def rect_aRadius_def by (auto simp: min_def)
  have hxy: "hx = w / 2 - ar" "hy = h / 2 - ar"
    unfolding hx_def hy_def ar_def rect_aHSize_def by simp_all
  have b: "\<bar>hx\<bar> + ar \<le> w / 2" "\<bar>- hx\<bar> + ar \<le> w / 2"
          "\<bar>hy\<bar> + ar \<le> h / 2" "\<bar>- hy\<bar> + ar \<le> h / 2"
    using ar unfolding hxy by simp_all
  show ?thesis
  proof (cases "rect_aRadius (w, h) r > 0")
    case True
    show ?thesis
      unfolding createRoundRectangleTriangles_round(1) [OF True]
        ar_def [symmetric] hx_def [symmetric] hy_def [symmetric]
      using assms arcVertex_in_box [OF ar(1) b(1) b(3)] arcVertex_in_box [OF ar(1) b(1) b(4)]
        arcVertex_in_box [OF ar(1) b(2) b(4)] arcVertex_in_box [OF ar(1) b(2) b(3)]
      by (auto simp: list_all_iff Pnt_Transformed_identity gp_X_def gp_Y_def gp_Z_def)
  next
    case False
    then have "ar = 0"
      using ar(1) unfolding ar_def by simp
    then have "hx = w / 2" "hy = h / 2"
      using hxy by simp_all
    then show ?thesis
      unfolding createRoundRectangleTriangles_sharp(1) [OF False]
        hx_def [symmetric] hy_def [symmetric]
      using assms
      by (simp add: Pnt_Transformed_identity gp_X_def gp_Y_def gp_Z_def)
  qed
qed

lemma Interpolate_ends: "Interpolate a0 a1 0 = a0" "Interpolate a0 a1 1 = a1"
  by (simp_all add: Interpolate_def)

lemma three_half_pi: "cos (pi * 3 / 2) = 0" "sin (pi * 3 / 2) = - 1"
  using cos_3over2_pi sin_3over2_pi by (simp_all add: mult.commute)

lemma round_vertices_coincide:
  assumes "rect_aRadius theSize theRadius > 0"
  shows "fst (rect_aHSize theSize theRadius) = 0 \<Longrightarrow>
           Vertice 19 (createRoundRectangleTriangles theSize theRadius theTrsf)
             = Vertice 20 (createRoundRectangleTriangles theSize theRadius theTrsf)
           \<and> Vertice 37 (createRoundRectangleTriangles theSize theRadius theTrsf)
             = Vertice 2 (createRoundRectangleTriangles theSize theRadius theTrsf)"
    and "snd (rect_aHSize theSize theRadius) = 0 \<Longrightarrow>
           Vertice 10 (createRoundRectangleTriangles theSize theRadius theTrsf)
             = Vertice 11 (createRoundRectangleTriangles theSize theRadius theTrsf)
           \<and> Vertice 28 (createRoundRectangleTriangles theSize theRadius theTrsf)
             = Vertice 29 (createRoundRectangleTriangles theSize theRadius theTrsf)"
proof -
  have one: "real THE_NB_ROUND_SPLITS / real THE_NB_ROUND_SPLITS = 1"
    by (simp add: THE_NB_ROUND_SPLITS_def)
  have eight: "(8 :: real) / real THE_NB_ROUND_SPLITS = 1"
    by (simp add: THE_NB_ROUND_SPLITS_def)
  show "Vertice 19 (createRoundRectangleTriangles theSize theRadius theTrsf)
             = Vertice 20 (createRoundRectangleTriangles theSize theRadius theTrsf)
           \<and> Vertice 37 (createRoundRectangleTriangles theSize theRadius theTrsf)
             = Vertice 2 (createRoundRectangleTriangles theSize theRadius theTrsf)"
    if "fst (rect_aHSize theSize theRadius) = 0"
    unfolding Vertice_def createRoundRectangleTriangles_round(1) [OF assms] upt_round_splits that
    by (simp add: arcVertex_def Let_def eight Interpolate_ends three_half_pi)
  show "Vertice 10 (createRoundRectangleTriangles theSize theRadius theTrsf)
             = Vertice 11 (createRoundRectangleTriangles theSize theRadius theTrsf)
           \<and> Vertice 28 (createRoundRectangleTriangles theSize theRadius theTrsf)
             = Vertice 29 (createRoundRectangleTriangles theSize theRadius theTrsf)"
    if "snd (rect_aHSize theSize theRadius) = 0"
    unfolding Vertice_def createRoundRectangleTriangles_round(1) [OF assms] upt_round_splits that
    by (simp add: arcVertex_def Let_def eight Interpolate_ends)
qed

lemma sharp_vertices_coincide:
  assumes "\<not> rect_aRadius theSize theRadius > 0"
  shows "fst (rect_aHSize theSize theRadius) = 0 \<Longrightarrow>
           Vertice 1 (createRoundRectangleTriangles theSize theRadius theTrsf)
             = Vertice 4 (createRoundRectangleTriangles theSize theRadius theTrsf)
           \<and> Vertice 2 (createRoundRectangleTriangles theSize theRadius theTrsf)
             = Vertice 3 (createRoundRectangleTriangles theSize theRadius theTrsf)"
    and "snd (rect_aHSize theSize theRadius) = 0 \<Longrightarrow>
           Vertice 1 (createRoundRectangleTriangles theSize theRadius theTrsf)
             = Vertice 2 (createRoundRectangleTriangles theSize theRadius theTrsf)
           \<and> Vertice 3 (createRoundRectangleTriangles theSize theRadius theTrsf)
             = Vertice 4 (createRoundRectangleTriangles theSize theRadius theTrsf)"
  unfolding Vertice_def createRoundRectangleTriangles_sharp(1) [OF assms]
  by simp_all

text \<open>
  C9, as the code has it. For a non-negative width, height and radius, the radius used is the
  requested one cut down to half the shorter side, it is not negative, and the two half
  sizes (half the side less the radius used) are not negative; a half size is positive
  exactly when the requested radius is below half of that side or that side is the longer
  one. Every vertex is computed from the radius used and the half sizes only. The one
  division of the builder is by \<^verbatim>\<open>THE_NB_ROUND_SPLITS\<close>, which is not 0, and every vertex is
  the placement's image of a point of the plane whose coordinates are within half the
  width and half the height: no coordinate is undefined or out of the patch. Where a half
  size is 0, vertices coincide: with the first half size 0, vertices 19 and 20 and
  vertices 37 and 2 of the rounded patch, or vertices 1 and 4 and vertices 2 and 3 of the
  quad; with the second half size 0, vertices 10 and 11 and vertices 28 and 29 of the
  rounded patch, or vertices 1 and 2 and vertices 3 and 4 of the quad.
\<close>

theorem radius_clamped_to_half_side:
  assumes "0 \<le> w" and "0 \<le> h" and "0 \<le> r"
  shows
    "rect_aRadius (w, h) r = min r (min w h / 2)
     \<and> rect_aRadius (w, h) r \<le> min w h / 2
     \<and> 0 \<le> rect_aRadius (w, h) r
     \<and> rect_aHSize (w, h) r = (w / 2 - rect_aRadius (w, h) r, h / 2 - rect_aRadius (w, h) r)
     \<and> 0 \<le> fst (rect_aHSize (w, h) r) \<and> 0 \<le> snd (rect_aHSize (w, h) r)
     \<and> (0 < fst (rect_aHSize (w, h) r)) = (r < w / 2 \<or> h < w)
     \<and> (0 < snd (rect_aHSize (w, h) r)) = (r < h / 2 \<or> w < h)
     \<and> Vertices (createRoundRectangleTriangles (w, h) r theTrsf) =
         (if rect_aRadius (w, h) r > 0 then
            Pnt_Transformed theTrsf (0, 0, 0)
            # map (arcVertex theTrsf (rect_aRadius (w, h) r)
                     (fst (rect_aHSize (w, h) r)) (snd (rect_aHSize (w, h) r))
                     (pi * 0.5) 0) [0 ..< THE_NB_ROUND_SPLITS + 1]
            @ map (arcVertex theTrsf (rect_aRadius (w, h) r)
                     (fst (rect_aHSize (w, h) r)) (- snd (rect_aHSize (w, h) r))
                     0 (- pi * 0.5)) [0 ..< THE_NB_ROUND_SPLITS + 1]
            @ map (arcVertex theTrsf (rect_aRadius (w, h) r)
                     (- fst (rect_aHSize (w, h) r)) (- snd (rect_aHSize (w, h) r))
                     (- pi * 0.5) (- pi)) [0 ..< THE_NB_ROUND_SPLITS + 1]
            @ map (arcVertex theTrsf (rect_aRadius (w, h) r)
                     (- fst (rect_aHSize (w, h) r)) (snd (rect_aHSize (w, h) r))
                     (- pi) (- pi * 1.5)) [0 ..< THE_NB_ROUND_SPLITS + 1]
          else
            [Pnt_Transformed theTrsf (- fst (rect_aHSize (w, h) r), - snd (rect_aHSize (w, h) r), 0),
             Pnt_Transformed theTrsf (- fst (rect_aHSize (w, h) r), snd (rect_aHSize (w, h) r), 0),
             Pnt_Transformed theTrsf (fst (rect_aHSize (w, h) r), snd (rect_aHSize (w, h) r), 0),
             Pnt_Transformed theTrsf (fst (rect_aHSize (w, h) r), - snd (rect_aHSize (w, h) r), 0)])
     \<and> real THE_NB_ROUND_SPLITS \<noteq> 0
     \<and> Vertices (createRoundRectangleTriangles (w, h) r theTrsf) =
         map (Pnt_Transformed theTrsf)
           (Vertices (createRoundRectangleTriangles (w, h) r identity_Trsf))
     \<and> list_all (\<lambda>p. \<bar>gp_X p\<bar> \<le> w / 2 \<and> \<bar>gp_Y p\<bar> \<le> h / 2 \<and> gp_Z p = 0)
           (Vertices (createRoundRectangleTriangles (w, h) r identity_Trsf))
     \<and> (fst (rect_aHSize (w, h) r) = 0 \<longrightarrow>
          (if rect_aRadius (w, h) r > 0
           then Vertice 19 (createRoundRectangleTriangles (w, h) r theTrsf) = Vertice 20 (createRoundRectangleTriangles (w, h) r theTrsf)
                \<and> Vertice 37 (createRoundRectangleTriangles (w, h) r theTrsf) = Vertice 2 (createRoundRectangleTriangles (w, h) r theTrsf)
           else Vertice 1 (createRoundRectangleTriangles (w, h) r theTrsf) = Vertice 4 (createRoundRectangleTriangles (w, h) r theTrsf)
                \<and> Vertice 2 (createRoundRectangleTriangles (w, h) r theTrsf) = Vertice 3 (createRoundRectangleTriangles (w, h) r theTrsf)))
     \<and> (snd (rect_aHSize (w, h) r) = 0 \<longrightarrow>
          (if rect_aRadius (w, h) r > 0
           then Vertice 10 (createRoundRectangleTriangles (w, h) r theTrsf) = Vertice 11 (createRoundRectangleTriangles (w, h) r theTrsf)
                \<and> Vertice 28 (createRoundRectangleTriangles (w, h) r theTrsf) = Vertice 29 (createRoundRectangleTriangles (w, h) r theTrsf)
           else Vertice 1 (createRoundRectangleTriangles (w, h) r theTrsf) = Vertice 2 (createRoundRectangleTriangles (w, h) r theTrsf)
                \<and> Vertice 3 (createRoundRectangleTriangles (w, h) r theTrsf) = Vertice 4 (createRoundRectangleTriangles (w, h) r theTrsf)))"
proof -
  have a: "rect_aRadius (w, h) r = min r (min w h / 2)"
    by (simp add: rect_aRadius_def)
  have b: "rect_aRadius (w, h) r \<le> min w h / 2" "0 \<le> rect_aRadius (w, h) r"
    using assms unfolding a by (auto simp: min_def)
  have c: "rect_aHSize (w, h) r = (w / 2 - rect_aRadius (w, h) r, h / 2 - rect_aRadius (w, h) r)"
    by (simp add: rect_aHSize_def)
  have d: "0 \<le> fst (rect_aHSize (w, h) r)" "0 \<le> snd (rect_aHSize (w, h) r)"
    using assms unfolding c a by (auto simp: min_def)
  have e: "(0 < fst (rect_aHSize (w, h) r)) = (r < w / 2 \<or> h < w)"
      "(0 < snd (rect_aHSize (w, h) r)) = (r < h / 2 \<or> w < h)"
    using assms unfolding c a by (auto simp: min_def)
  have n: "real THE_NB_ROUND_SPLITS \<noteq> 0"
    by (simp add: THE_NB_ROUND_SPLITS_def)
  have x: "fst (rect_aHSize (w, h) r) = 0 \<longrightarrow>
          (if rect_aRadius (w, h) r > 0
           then Vertice 19 (createRoundRectangleTriangles (w, h) r theTrsf) = Vertice 20 (createRoundRectangleTriangles (w, h) r theTrsf)
                \<and> Vertice 37 (createRoundRectangleTriangles (w, h) r theTrsf) = Vertice 2 (createRoundRectangleTriangles (w, h) r theTrsf)
           else Vertice 1 (createRoundRectangleTriangles (w, h) r theTrsf) = Vertice 4 (createRoundRectangleTriangles (w, h) r theTrsf)
                \<and> Vertice 2 (createRoundRectangleTriangles (w, h) r theTrsf) = Vertice 3 (createRoundRectangleTriangles (w, h) r theTrsf))"
    using round_vertices_coincide(1) [of "(w, h)" r theTrsf]
      sharp_vertices_coincide(1) [of "(w, h)" r theTrsf]
    by (cases "rect_aRadius (w, h) r > 0") simp_all
  have y: "snd (rect_aHSize (w, h) r) = 0 \<longrightarrow>
          (if rect_aRadius (w, h) r > 0
           then Vertice 10 (createRoundRectangleTriangles (w, h) r theTrsf) = Vertice 11 (createRoundRectangleTriangles (w, h) r theTrsf)
                \<and> Vertice 28 (createRoundRectangleTriangles (w, h) r theTrsf) = Vertice 29 (createRoundRectangleTriangles (w, h) r theTrsf)
           else Vertice 1 (createRoundRectangleTriangles (w, h) r theTrsf) = Vertice 2 (createRoundRectangleTriangles (w, h) r theTrsf)
                \<and> Vertice 3 (createRoundRectangleTriangles (w, h) r theTrsf) = Vertice 4 (createRoundRectangleTriangles (w, h) r theTrsf))"
    using round_vertices_coincide(2) [of "(w, h)" r theTrsf]
      sharp_vertices_coincide(2) [of "(w, h)" r theTrsf]
    by (cases "rect_aRadius (w, h) r > 0") simp_all
  show ?thesis
    using a b c d e createRoundRectangleTriangles_Vertices [of "(w, h)" r theTrsf]
      n createRoundRectangleTriangles_placement [of "(w, h)" r theTrsf]
      createRoundRectangleTriangles_in_box [OF assms] x y
    by (intro conjI)
qed

theorem radius_clamped_to_half_side_witness:
  "(0::real) \<le> 4 \<and> (0::real) \<le> 2 \<and> (0::real) \<le> 3
   \<and> rect_aRadius (4, 2) 3 = 1 \<and> rect_aHSize (4, 2) 3 = (1, 0)
   \<and> Vertice 10 (createRoundRectangleTriangles (4, 2) 3 identity_Trsf) = Vertice 11 (createRoundRectangleTriangles (4, 2) 3 identity_Trsf)
   \<and> Vertice 28 (createRoundRectangleTriangles (4, 2) 3 identity_Trsf) = Vertice 29 (createRoundRectangleTriangles (4, 2) 3 identity_Trsf)"
proof -
  have h: "(0::real) \<le> 4" "(0::real) \<le> 2" "(0::real) \<le> 3"
    by simp_all
  note t = radius_clamped_to_half_side [OF h, of identity_Trsf]
  have r: "rect_aRadius (4, 2) 3 = 1"
    using t [THEN conjunct1] by simp
  have hs: "rect_aHSize (4, 2) 3 = (1, 0)"
    using t [THEN conjunct2, THEN conjunct2, THEN conjunct2, THEN conjunct1] r by simp
  have last: "snd (rect_aHSize (4, 2) 3) = 0 \<longrightarrow>
          (if rect_aRadius (4, 2) 3 > 0
           then Vertice 10 (createRoundRectangleTriangles (4, 2) 3 identity_Trsf) = Vertice 11 (createRoundRectangleTriangles (4, 2) 3 identity_Trsf)
                \<and> Vertice 28 (createRoundRectangleTriangles (4, 2) 3 identity_Trsf) = Vertice 29 (createRoundRectangleTriangles (4, 2) 3 identity_Trsf)
           else Vertice 1 (createRoundRectangleTriangles (4, 2) 3 identity_Trsf) = Vertice 2 (createRoundRectangleTriangles (4, 2) 3 identity_Trsf)
                \<and> Vertice 3 (createRoundRectangleTriangles (4, 2) 3 identity_Trsf) = Vertice 4 (createRoundRectangleTriangles (4, 2) 3 identity_Trsf))"
    using t by (elim conjE)
  have v: "Vertice 10 (createRoundRectangleTriangles (4, 2) 3 identity_Trsf) = Vertice 11 (createRoundRectangleTriangles (4, 2) 3 identity_Trsf)
      \<and> Vertice 28 (createRoundRectangleTriangles (4, 2) 3 identity_Trsf) = Vertice 29 (createRoundRectangleTriangles (4, 2) 3 identity_Trsf)"
    using last unfolding r hs by simp
  show ?thesis
    using h r hs v by blast
qed

text \<open>
  C9 as stated also promises that no degenerate geometry is produced. At width 0, height 2
  and radius 1 (all non-negative) the radius used is 0, the half sizes are 0 and 1, and the
  quad collapses to a segment: vertices 2 and 3 coincide, vertices 1 and 4 coincide, and the
  triangle \<open>(3, 1, 2)\<close> has no area. At width 2, height 2 and radius 1, half the side, the
  radius used is 1, both half sizes are 0, consecutive arcs meet in one point: vertices 10
  and 11 coincide, and the triangle \<open>(1, 10, 11)\<close> of the fan has two equal corners.
\<close>

theorem zero_half_size_degenerate:
  "(0::real) \<le> 0 \<and> (0::real) \<le> 2 \<and> (0::real) \<le> 1
   \<and> Edges (createRoundRectangleTriangles (0, 2) 1 identity_Trsf) = [3, 1, 2, 1, 3, 4]
   \<and> Vertice 3 (createRoundRectangleTriangles (0, 2) 1 identity_Trsf)
       = Vertice 2 (createRoundRectangleTriangles (0, 2) 1 identity_Trsf)
   \<and> Vertice 1 (createRoundRectangleTriangles (0, 2) 1 identity_Trsf)
       = Vertice 4 (createRoundRectangleTriangles (0, 2) 1 identity_Trsf)
   \<and> Crossed
        (Subtracted (Vertice 1 (createRoundRectangleTriangles (0, 2) 1 identity_Trsf))
                    (Vertice 3 (createRoundRectangleTriangles (0, 2) 1 identity_Trsf)))
        (Subtracted (Vertice 2 (createRoundRectangleTriangles (0, 2) 1 identity_Trsf))
                    (Vertice 3 (createRoundRectangleTriangles (0, 2) 1 identity_Trsf)))
       = (0, 0, 0)
   \<and> rect_aRadius (2, 2) 1 = 1 \<and> rect_aHSize (2, 2) 1 = (0, 0)
   \<and> Vertice 10 (createRoundRectangleTriangles (2, 2) 1 identity_Trsf) = (1, 0, 0)
   \<and> Vertice 11 (createRoundRectangleTriangles (2, 2) 1 identity_Trsf) = (1, 0, 0)
   \<and> take 3 (drop 27 (Edges (createRoundRectangleTriangles (2, 2) 1 identity_Trsf))) = [1, 10, 11]"
proof -
  have r0: "\<not> rect_aRadius (0, 2) 1 > 0" and hs0: "rect_aHSize (0, 2) 1 = (0, 1)"
    by (simp_all add: rect_aRadius_def rect_aHSize_def)
  have v0: "Vertices (createRoundRectangleTriangles (0, 2) 1 identity_Trsf)
             = [(0, - 1, 0), (0, 1, 0), (0, 1, 0), (0, - 1, 0)]"
    unfolding createRoundRectangleTriangles_sharp(1) [OF r0] hs0
    by (simp add: Pnt_Transformed_identity)
  have a: "Edges (createRoundRectangleTriangles (0, 2) 1 identity_Trsf) = [3, 1, 2, 1, 3, 4]
   \<and> Vertice 3 (createRoundRectangleTriangles (0, 2) 1 identity_Trsf)
       = Vertice 2 (createRoundRectangleTriangles (0, 2) 1 identity_Trsf)
   \<and> Vertice 1 (createRoundRectangleTriangles (0, 2) 1 identity_Trsf)
       = Vertice 4 (createRoundRectangleTriangles (0, 2) 1 identity_Trsf)
   \<and> Crossed
        (Subtracted (Vertice 1 (createRoundRectangleTriangles (0, 2) 1 identity_Trsf))
                    (Vertice 3 (createRoundRectangleTriangles (0, 2) 1 identity_Trsf)))
        (Subtracted (Vertice 2 (createRoundRectangleTriangles (0, 2) 1 identity_Trsf))
                    (Vertice 3 (createRoundRectangleTriangles (0, 2) 1 identity_Trsf)))
       = (0, 0, 0)"
    unfolding Vertice_def v0 createRoundRectangleTriangles_sharp(2) [OF r0]
    by (simp add: Crossed_def Subtracted_def gp_X_def gp_Y_def gp_Z_def)
  have r: "rect_aRadius (2, 2) 1 = 1" and hs: "rect_aHSize (2, 2) 1 = (0, 0)"
    by (simp_all add: rect_aRadius_def rect_aHSize_def)
  have p: "rect_aRadius (2, 2) 1 > 0"
    unfolding r by simp
  have v: "Vertice 10 (createRoundRectangleTriangles (2, 2) 1 identity_Trsf) = (1, 0, 0)"
      "Vertice 11 (createRoundRectangleTriangles (2, 2) 1 identity_Trsf) = (1, 0, 0)"
    unfolding Vertice_def createRoundRectangleTriangles_round(1) [OF p] r hs upt_round_splits
    by (simp_all add: arcVertex_def Interpolate_def Pnt_Transformed_identity
          THE_NB_ROUND_SPLITS_def)
  have e: "take 3 (drop 27 (Edges (createRoundRectangleTriangles (2, 2) 1 identity_Trsf))) = [1, 10, 11]"
    unfolding createRoundRectangleTriangles_round(2) [OF p]
    by (simp add: THE_NB_ROUND_SPLITS_def upt_rec_numeral)
  have z: "(0::real) \<le> 0 \<and> (0::real) \<le> 2 \<and> (0::real) \<le> 1"
    by simp
  show ?thesis
    using z a r hs v e by blast
qed


section \<open>Validation of the round radius\<close>

text \<open>
  C8, as the code has it. A value below 0 or above 0.5 is refused with the out-of-range error
  and its message, and the cube is left as it was. A value within \<open>[0, 0.5]\<close> is accepted
  without error; it is stored, and the presentation marked stale, when it differs from the
  stored radius by more than \<^verbatim>\<open>Precision::Confusion()\<close>, and otherwise the cube is left as
  it was. Either way the stored radius ends within that tolerance of the value.
\<close>

theorem SetRoundRadius_validates_first:
  "((theValue < 0 \<or> theValue > 0.5) \<longrightarrow>
      SetRoundRadius theValue c =
        (Some (Standard_OutOfRange ''AIS_ViewCube::SetRoundRadius(): theValue should be in [0; 0.5]''), c))
   \<and> ((0 \<le> theValue \<and> theValue \<le> 0.5) \<longrightarrow>
        fst (SetRoundRadius theValue c) = None
        \<and> snd (SetRoundRadius theValue c) =
            (if \<bar>myRoundRadius c - theValue\<bar> > Precision_Confusion
             then c\<lparr>myRoundRadius := theValue, myToUpdate := True\<rparr> else c)
        \<and> \<bar>myRoundRadius (snd (SetRoundRadius theValue c)) - theValue\<bar> \<le> Precision_Confusion)"
  by (auto simp: SetRoundRadius_def SetToUpdate_def Precision_Confusion_def)

theorem SetRoundRadius_validates_first_witness:
  "((3 / 4 :: real) < 0 \<or> (3 / 4 :: real) > 0.5)
   \<and> SetRoundRadius (3 / 4) new_AIS_ViewCube =
        (Some (Standard_OutOfRange ''AIS_ViewCube::SetRoundRadius(): theValue should be in [0; 0.5]''),
         new_AIS_ViewCube)
   \<and> (0 :: real) \<le> 1 / 4 \<and> (1 / 4 :: real) \<le> 0.5
   \<and> fst (SetRoundRadius (1 / 4) new_AIS_ViewCube) = None
   \<and> myRoundRadius (snd (SetRoundRadius (1 / 4) new_AIS_ViewCube)) = 1 / 4
   \<and> myToUpdate (snd (SetRoundRadius (1 / 4) new_AIS_ViewCube))"
  using SetRoundRadius_validates_first [of "3 / 4" new_AIS_ViewCube]
    SetRoundRadius_validates_first [of "1 / 4" new_AIS_ViewCube]
  by (simp add: new_AIS_ViewCube_def Precision_Confusion_def)


text \<open>
  C8 as stated has every value within \<open>[0, 0.5]\<close> stored. On the cube as constructed
  (radius 0) the value 5e-8 is accepted and not stored: the cube is unchanged.
\<close>

theorem SetRoundRadius_small_change_not_stored:
  "(0 :: real) \<le> 1 / 20000000 \<and> (1 / 20000000 :: real) \<le> 0.5
   \<and> fst (SetRoundRadius (1 / 20000000) new_AIS_ViewCube) = None
   \<and> myRoundRadius (snd (SetRoundRadius (1 / 20000000) new_AIS_ViewCube)) \<noteq> 1 / 20000000
   \<and> snd (SetRoundRadius (1 / 20000000) new_AIS_ViewCube) = new_AIS_ViewCube"
  by (simp add: SetRoundRadius_def new_AIS_ViewCube_def Precision_Confusion_def)



section \<open>The ray filter and the owner\<close>

lemma Angle_perp_example: "Angle (0, 5, 0) (1, 0, 0) = pi / 2"
  by (simp add: Angle_def Dot_def Modulus_def gp_X_def gp_Y_def gp_Z_def)


text \<open>
  C10. A selection that is not a point selection is refused for every owner. For a point
  selection, a null owner and an owner of another class are accepted without any condition
  on the ray; only for a view cube owner does the answer depend on the ray, through the
  test of perpendicularity within 10 degrees against the direction of the owner's
  orientation.
\<close>

theorem isValidRay_filter_only_for_cube_owner:
  "(GetActiveSelectionType theMgr \<noteq> Point \<longrightarrow> \<not> isValidRay anOwner theMgr)
   \<and> (GetActiveSelectionType theMgr = Point \<longrightarrow>
        isValidRay NullOwner theMgr \<and> isValidRay OtherOwner theMgr
        \<and> isValidRay (AIS_ViewCubeOwner ori) theMgr =
            (\<not> IsNormal (gp_Vec (GetNearPickedPnt theMgr) (GetFarPickedPnt theMgr))
                  (GetProjAxis ori) (10 * pi / 180)))"
  by (simp add: isValidRay_def Let_def)


theorem isValidRay_filter_only_for_cube_owner_witness:
  "Box \<noteq> Point
   \<and> \<not> isValidRay OtherOwner
         \<lparr>GetActiveSelectionType = Box, GetNearPickedPnt = (0, 0, 0), GetFarPickedPnt = (0, 5, 0)\<rparr>
   \<and> \<not> isValidRay (AIS_ViewCubeOwner V3d_Xpos)
         \<lparr>GetActiveSelectionType = Box, GetNearPickedPnt = (0, 0, 0), GetFarPickedPnt = (5, 0, 0)\<rparr>
   \<and> isValidRay NullOwner
         \<lparr>GetActiveSelectionType = Point, GetNearPickedPnt = (0, 0, 0), GetFarPickedPnt = (0, 5, 0)\<rparr>
   \<and> isValidRay OtherOwner
         \<lparr>GetActiveSelectionType = Point, GetNearPickedPnt = (0, 0, 0), GetFarPickedPnt = (0, 5, 0)\<rparr>
   \<and> \<not> isValidRay (AIS_ViewCubeOwner V3d_Xpos)
         \<lparr>GetActiveSelectionType = Point, GetNearPickedPnt = (0, 0, 0), GetFarPickedPnt = (0, 5, 0)\<rparr>"
  using
    isValidRay_filter_only_for_cube_owner [of
      "\<lparr>GetActiveSelectionType = Box, GetNearPickedPnt = (0, 0, 0), GetFarPickedPnt = (0, 5, 0)\<rparr>"
      OtherOwner V3d_Xpos]
    isValidRay_filter_only_for_cube_owner [of
      "\<lparr>GetActiveSelectionType = Box, GetNearPickedPnt = (0, 0, 0), GetFarPickedPnt = (5, 0, 0)\<rparr>"
      "AIS_ViewCubeOwner V3d_Xpos" V3d_Xpos]
    isValidRay_filter_only_for_cube_owner [of
      "\<lparr>GetActiveSelectionType = Point, GetNearPickedPnt = (0, 0, 0), GetFarPickedPnt = (0, 5, 0)\<rparr>"
      OtherOwner V3d_Xpos]
    Angle_perp_example
  by (simp add: IsNormal_def gp_Vec_def Subtracted_def gp_X_def gp_Y_def gp_Z_def)

section \<open>The transition controller as a state machine\<close>

lemma UpdateAnimation_running:
  assumes "HasAnimation c" and "aPts < myDuration c"
  shows "UpdateAnimation u aPts c =
           (True, c\<lparr>myEvents := myEvents c
                      @ (case View (myViewAnimation c) of
                           None \<Rightarrow> []
                         | Some v \<Rightarrow> if u then [if IsInvalidated v then Redraw else RedrawImmediate] else [])
                      @ [AfterAnimation]\<rparr>)"
  using assms by (simp add: UpdateAnimation_def updateAnimation_def Let_def)

lemma UpdateAnimation_finishing:
  assumes "HasAnimation c" and "aPts \<ge> myDuration c"
  shows "UpdateAnimation u aPts c =
           (False, c\<lparr>myViewAnimation := (myViewAnimation c)\<lparr>IsStopped := True, View := None\<rparr>,
                     myEvents := myEvents c @ [AnimationFinished]\<rparr>)"
  using assms by (simp add: UpdateAnimation_def updateAnimation_def Let_def)

lemma UpdateAnimation_idle:
  assumes "\<not> HasAnimation c"
  shows "UpdateAnimation u aPts c = (False, c)"
  using assms by (simp add: UpdateAnimation_def Let_def)

lemma nbFinished_redraw:
  "nbFinished (c\<lparr>myEvents := myEvents c
                  @ (case w of None \<Rightarrow> []
                     | Some v \<Rightarrow> if u then [if IsInvalidated v then Redraw else RedrawImmediate] else [])
                  @ [AfterAnimation]\<rparr>) = nbFinished c"
  by (simp add: nbFinished_def split: option.splits)

lemma UpdateAnimation_ticks_idle:
  "\<not> HasAnimation c \<Longrightarrow> UpdateAnimation_ticks theTicks c = c"
  by (induction theTicks) (simp_all add: UpdateAnimation_idle)

lemma UpdateAnimation_ticks_running:
  "HasAnimation c \<Longrightarrow>
     HasAnimation (UpdateAnimation_ticks theTicks c) = list_all (\<lambda>t. t < myDuration c) theTicks
     \<and> nbFinished (UpdateAnimation_ticks theTicks c) =
         nbFinished c + (if HasAnimation (UpdateAnimation_ticks theTicks c) then 0 else 1)"
proof (induction theTicks arbitrary: c)
  case Nil
  then show ?case by simp
next
  case (Cons aPts theTicks)
  show ?case
  proof (cases "aPts < myDuration c")
    case True
    define c' where "c' = snd (UpdateAnimation True aPts c)"
    have c': "HasAnimation c'" "myDuration c' = myDuration c" "nbFinished c' = nbFinished c"
      unfolding c'_def UpdateAnimation_running [OF Cons.prems True]
      by (simp_all add: HasAnimation_def nbFinished_redraw Cons.prems [unfolded HasAnimation_def])
    from Cons.IH [OF c'(1)] True show ?thesis
      by (simp add: c' c'_def [symmetric])
  next
    case False
    then have ge: "aPts \<ge> myDuration c" by simp
    define c' where "c' = snd (UpdateAnimation True aPts c)"
    have c': "\<not> HasAnimation c'" "nbFinished c' = nbFinished c + 1"
      unfolding c'_def UpdateAnimation_finishing [OF Cons.prems ge]
      by (simp_all add: HasAnimation_def nbFinished_def)
    from UpdateAnimation_ticks_idle [OF c'(1)] False show ?thesis
      by (simp add: c' c'_def [symmetric])
  qed
qed

lemma StartAnimation_starts:
  "HasAnimation (StartAnimation theSetProj theFitAll theBnd (Some v) (Some ori) c)
   \<and> View (myViewAnimation (StartAnimation theSetProj theFitAll theBnd (Some v) (Some ori) c)) = Some v
   \<and> myEvents (StartAnimation theSetProj theFitAll theBnd (Some v) (Some ori) c) = myEvents c
   \<and> myDuration (StartAnimation theSetProj theFitAll theBnd (Some v) (Some ori) c) = myDuration c"
  by (simp add: StartAnimation_def HasAnimation_def Let_def)

lemma StartAnimation_noop:
  "StartAnimation theSetProj theFitAll theBnd None theOwner c = c"
  "StartAnimation theSetProj theFitAll theBnd aView None c = c"
  by (simp_all add: StartAnimation_def split: option.splits)


text \<open>
  C5. The cube as constructed has no animation. \<^verbatim>\<open>StartAnimation\<close> does nothing without an
  owner or without a view, and otherwise leaves the cube animating, holding the view, with
  no notification fired. While the cube is animating, a call of \<^verbatim>\<open>UpdateAnimation\<close> at an
  elapsed time below the duration answers true, leaves it animating with the view held and
  fires no "finished"; a call at an elapsed time that reaches the duration answers false,
  stops the animation, drops the view and fires "finished" once, as the last event. Without
  an animation the call answers false and changes nothing. Over any sequence of calls made
  on an animating cube, the cube is still animating at the end exactly when every elapsed
  time stayed below the duration, and "finished" was fired not at all if it is still
  animating and exactly once if it is not.
\<close>

theorem animation_two_state_machine:
  "\<not> HasAnimation new_AIS_ViewCube
   \<and> StartAnimation theSetProj theFitAll theBnd None theOwner c = c
   \<and> StartAnimation theSetProj theFitAll theBnd aView None c = c
   \<and> HasAnimation (StartAnimation theSetProj theFitAll theBnd (Some v) (Some ori) c)
   \<and> View (myViewAnimation (StartAnimation theSetProj theFitAll theBnd (Some v) (Some ori) c)) = Some v
   \<and> nbFinished (StartAnimation theSetProj theFitAll theBnd (Some v) (Some ori) c) = nbFinished c
   \<and> (HasAnimation c \<and> aPts < myDuration c \<longrightarrow>
        fst (UpdateAnimation u aPts c)
        \<and> HasAnimation (snd (UpdateAnimation u aPts c))
        \<and> View (myViewAnimation (snd (UpdateAnimation u aPts c))) = View (myViewAnimation c)
        \<and> nbFinished (snd (UpdateAnimation u aPts c)) = nbFinished c)
   \<and> (HasAnimation c \<and> aPts \<ge> myDuration c \<longrightarrow>
        \<not> fst (UpdateAnimation u aPts c)
        \<and> \<not> HasAnimation (snd (UpdateAnimation u aPts c))
        \<and> View (myViewAnimation (snd (UpdateAnimation u aPts c))) = None
        \<and> myEvents (snd (UpdateAnimation u aPts c)) = myEvents c @ [AnimationFinished]
        \<and> nbFinished (snd (UpdateAnimation u aPts c)) = nbFinished c + 1)
   \<and> (\<not> HasAnimation c \<longrightarrow> UpdateAnimation u aPts c = (False, c))
   \<and> (HasAnimation c \<longrightarrow>
        HasAnimation (UpdateAnimation_ticks theTicks c) = list_all (\<lambda>t. t < myDuration c) theTicks
        \<and> nbFinished (UpdateAnimation_ticks theTicks c) =
            nbFinished c + (if HasAnimation (UpdateAnimation_ticks theTicks c) then 0 else 1))"
proof -
  have init: "\<not> HasAnimation new_AIS_ViewCube"
    by (simp add: HasAnimation_def new_AIS_ViewCube_def)
  have start: "nbFinished (StartAnimation theSetProj theFitAll theBnd (Some v) (Some ori) c) = nbFinished c"
    by (simp add: nbFinished_def StartAnimation_starts)
  have run: "HasAnimation c \<and> aPts < myDuration c \<longrightarrow>
        fst (UpdateAnimation u aPts c)
        \<and> HasAnimation (snd (UpdateAnimation u aPts c))
        \<and> View (myViewAnimation (snd (UpdateAnimation u aPts c))) = View (myViewAnimation c)
        \<and> nbFinished (snd (UpdateAnimation u aPts c)) = nbFinished c"
  proof
    assume a: "HasAnimation c \<and> aPts < myDuration c"
    then have h: "HasAnimation c" and l: "aPts < myDuration c" by simp_all
    show "fst (UpdateAnimation u aPts c)
        \<and> HasAnimation (snd (UpdateAnimation u aPts c))
        \<and> View (myViewAnimation (snd (UpdateAnimation u aPts c))) = View (myViewAnimation c)
        \<and> nbFinished (snd (UpdateAnimation u aPts c)) = nbFinished c"
      unfolding UpdateAnimation_running [OF h l]
      by (simp add: HasAnimation_def nbFinished_redraw h [unfolded HasAnimation_def])
  qed
  have fin: "HasAnimation c \<and> aPts \<ge> myDuration c \<longrightarrow>
        \<not> fst (UpdateAnimation u aPts c)
        \<and> \<not> HasAnimation (snd (UpdateAnimation u aPts c))
        \<and> View (myViewAnimation (snd (UpdateAnimation u aPts c))) = None
        \<and> myEvents (snd (UpdateAnimation u aPts c)) = myEvents c @ [AnimationFinished]
        \<and> nbFinished (snd (UpdateAnimation u aPts c)) = nbFinished c + 1"
  proof
    assume a: "HasAnimation c \<and> aPts \<ge> myDuration c"
    then have h: "HasAnimation c" and l: "aPts \<ge> myDuration c" by simp_all
    show "\<not> fst (UpdateAnimation u aPts c)
        \<and> \<not> HasAnimation (snd (UpdateAnimation u aPts c))
        \<and> View (myViewAnimation (snd (UpdateAnimation u aPts c))) = None
        \<and> myEvents (snd (UpdateAnimation u aPts c)) = myEvents c @ [AnimationFinished]
        \<and> nbFinished (snd (UpdateAnimation u aPts c)) = nbFinished c + 1"
      unfolding UpdateAnimation_finishing [OF h l]
      by (simp add: HasAnimation_def nbFinished_def)
  qed
  have idle: "\<not> HasAnimation c \<longrightarrow> UpdateAnimation u aPts c = (False, c)"
    by (simp add: UpdateAnimation_idle)
  have ticks: "HasAnimation c \<longrightarrow>
        HasAnimation (UpdateAnimation_ticks theTicks c) = list_all (\<lambda>t. t < myDuration c) theTicks
        \<and> nbFinished (UpdateAnimation_ticks theTicks c) =
            nbFinished c + (if HasAnimation (UpdateAnimation_ticks theTicks c) then 0 else 1)"
    using UpdateAnimation_ticks_running by blast
  show ?thesis
    using init StartAnimation_noop [of theSetProj theFitAll theBnd] StartAnimation_starts start
      run fin idle ticks
    by (intro conjI) simp_all
qed


theorem animation_two_state_machine_witness:
  "HasAnimation (StartAnimation (\<lambda>ori yup cam. cam) (\<lambda>box cam. cam) None
        (Some \<lparr>ViewId = 0, Camera = new_Graphic3d_Camera, ImmediateUpdate = True, IsInvalidated = False\<rparr>)
        (Some V3d_Xpos) new_AIS_ViewCube)
   \<and> 1 / 10 < myDuration (StartAnimation (\<lambda>ori yup cam. cam) (\<lambda>box cam. cam) None
        (Some \<lparr>ViewId = 0, Camera = new_Graphic3d_Camera, ImmediateUpdate = True, IsInvalidated = False\<rparr>)
        (Some V3d_Xpos) new_AIS_ViewCube)
   \<and> fst (UpdateAnimation True (1 / 10) (StartAnimation (\<lambda>ori yup cam. cam) (\<lambda>box cam. cam) None
        (Some \<lparr>ViewId = 0, Camera = new_Graphic3d_Camera, ImmediateUpdate = True, IsInvalidated = False\<rparr>)
        (Some V3d_Xpos) new_AIS_ViewCube))
   \<and> HasAnimation (snd (UpdateAnimation True (1 / 10) (StartAnimation (\<lambda>ori yup cam. cam) (\<lambda>box cam. cam) None
        (Some \<lparr>ViewId = 0, Camera = new_Graphic3d_Camera, ImmediateUpdate = True, IsInvalidated = False\<rparr>)
        (Some V3d_Xpos) new_AIS_ViewCube)))
   \<and> nbFinished (snd (UpdateAnimation True (1 / 10) (StartAnimation (\<lambda>ori yup cam. cam) (\<lambda>box cam. cam) None
        (Some \<lparr>ViewId = 0, Camera = new_Graphic3d_Camera, ImmediateUpdate = True, IsInvalidated = False\<rparr>)
        (Some V3d_Xpos) new_AIS_ViewCube))) = 0
   \<and> myDuration (StartAnimation (\<lambda>ori yup cam. cam) (\<lambda>box cam. cam) None
        (Some \<lparr>ViewId = 0, Camera = new_Graphic3d_Camera, ImmediateUpdate = True, IsInvalidated = False\<rparr>)
        (Some V3d_Xpos) new_AIS_ViewCube) \<le> 6 / 10
   \<and> \<not> fst (UpdateAnimation True (6 / 10) (StartAnimation (\<lambda>ori yup cam. cam) (\<lambda>box cam. cam) None
        (Some \<lparr>ViewId = 0, Camera = new_Graphic3d_Camera, ImmediateUpdate = True, IsInvalidated = False\<rparr>)
        (Some V3d_Xpos) new_AIS_ViewCube))
   \<and> \<not> HasAnimation (snd (UpdateAnimation True (6 / 10) (StartAnimation (\<lambda>ori yup cam. cam) (\<lambda>box cam. cam) None
        (Some \<lparr>ViewId = 0, Camera = new_Graphic3d_Camera, ImmediateUpdate = True, IsInvalidated = False\<rparr>)
        (Some V3d_Xpos) new_AIS_ViewCube)))
   \<and> nbFinished (snd (UpdateAnimation True (6 / 10) (StartAnimation (\<lambda>ori yup cam. cam) (\<lambda>box cam. cam) None
        (Some \<lparr>ViewId = 0, Camera = new_Graphic3d_Camera, ImmediateUpdate = True, IsInvalidated = False\<rparr>)
        (Some V3d_Xpos) new_AIS_ViewCube))) = 1
   \<and> \<not> HasAnimation (UpdateAnimation_ticks [1 / 10, 3 / 10, 6 / 10, 7 / 10] (StartAnimation (\<lambda>ori yup cam. cam) (\<lambda>box cam. cam) None
        (Some \<lparr>ViewId = 0, Camera = new_Graphic3d_Camera, ImmediateUpdate = True, IsInvalidated = False\<rparr>)
        (Some V3d_Xpos) new_AIS_ViewCube))
   \<and> nbFinished (UpdateAnimation_ticks [1 / 10, 3 / 10, 6 / 10, 7 / 10] (StartAnimation (\<lambda>ori yup cam. cam) (\<lambda>box cam. cam) None
        (Some \<lparr>ViewId = 0, Camera = new_Graphic3d_Camera, ImmediateUpdate = True, IsInvalidated = False\<rparr>)
        (Some V3d_Xpos) new_AIS_ViewCube)) = 1
   \<and> \<not> HasAnimation new_AIS_ViewCube
   \<and> UpdateAnimation True (6 / 10) new_AIS_ViewCube = (False, new_AIS_ViewCube)"
proof -
  define c0 where "c0 = (StartAnimation (\<lambda>ori yup cam. cam) (\<lambda>box cam. cam) None
        (Some \<lparr>ViewId = 0, Camera = new_Graphic3d_Camera, ImmediateUpdate = True, IsInvalidated = False\<rparr>)
        (Some V3d_Xpos) new_AIS_ViewCube)"
  have h: "HasAnimation c0" and d: "myDuration c0 = 1 / 2" and n: "nbFinished c0 = 0"
    unfolding c0_def
    by (simp_all add: StartAnimation_starts nbFinished_def new_AIS_ViewCube_def)
  have i: "\<not> HasAnimation new_AIS_ViewCube"
    by (simp add: HasAnimation_def new_AIS_ViewCube_def)
  note t1 = animation_two_state_machine
    [where c = c0 and aPts = "1 / 10" and u = True
       and theTicks = "[1 / 10, 3 / 10, 6 / 10, 7 / 10]"]
  note t2 = animation_two_state_machine [where c = c0 and aPts = "6 / 10" and u = True]
  note t3 = animation_two_state_machine
    [where c = new_AIS_ViewCube and aPts = "6 / 10" and u = True]
  have a: "HasAnimation c0
   \<and> 1 / 10 < myDuration c0
   \<and> fst (UpdateAnimation True (1 / 10) c0)
   \<and> HasAnimation (snd (UpdateAnimation True (1 / 10) c0))
   \<and> nbFinished (snd (UpdateAnimation True (1 / 10) c0)) = 0
   \<and> myDuration c0 \<le> 6 / 10
   \<and> \<not> fst (UpdateAnimation True (6 / 10) c0)
   \<and> \<not> HasAnimation (snd (UpdateAnimation True (6 / 10) c0))
   \<and> nbFinished (snd (UpdateAnimation True (6 / 10) c0)) = 1
   \<and> \<not> HasAnimation (UpdateAnimation_ticks [1 / 10, 3 / 10, 6 / 10, 7 / 10] c0)
   \<and> nbFinished (UpdateAnimation_ticks [1 / 10, 3 / 10, 6 / 10, 7 / 10] c0) = 1"
    using t1 t2 h d n by simp
  have b: "UpdateAnimation True (6 / 10) new_AIS_ViewCube = (False, new_AIS_ViewCube)"
    using t3 i by simp
  show ?thesis
    using a b i unfolding c0_def by simp
qed

section \<open>The sharp corner triangle\<close>

lemma normalized_corner:
  assumes "\<bar>x\<bar> = 1" and "\<bar>y\<bar> = 1" and "\<bar>z\<bar> = 1"
  shows "normalized x y z = (x / sqrt 3, y / sqrt 3, z / sqrt 3)"
proof -
  have "x * x = 1" "y * y = 1" "z * z = 1"
    using assms by (auto simp: abs_if split: if_splits)
  then show ?thesis
    by (simp add: normalized_def Let_def)
qed

lemma normalized_axis:
  assumes "a \<noteq> 0"
  shows "normalized a 0 0 = (sgn a, 0, 0)"
    and "normalized 0 a 0 = (0, sgn a, 0)"
    and "normalized 0 0 a = (0, 0, sgn a)"
  using assms by (simp_all add: normalized_def Let_def sgn_real_def)

lemma gp_Dir_axis:
  assumes "Resolution < \<bar>a\<bar>"
  shows "gp_Dir a 0 0 = Inr (sgn a, 0, 0)"
    and "gp_Dir 0 a 0 = Inr (0, sgn a, 0)"
    and "gp_Dir 0 0 a = Inr (0, 0, sgn a)"
proof -
  have nz: "a \<noteq> 0"
    using assms Resolution_pos by auto
  have m: "sqrt (a * a) = \<bar>a\<bar>"
    by simp
  show "gp_Dir a 0 0 = Inr (sgn a, 0, 0)"
    and "gp_Dir 0 a 0 = Inr (0, sgn a, 0)"
    and "gp_Dir 0 0 a = Inr (0, 0, sgn a)"
    using assms by (simp_all add: gp_Dir_def m normalized_axis [OF nz] not_le)
qed

lemma corner_axis:
  assumes "IsBoxCorner ori"
  shows "\<exists>sx sy sz. \<bar>sx\<bar> = 1 \<and> \<bar>sy\<bar> = 1 \<and> \<bar>sz\<bar> = 1
           \<and> GetProjAxis ori = (sx / sqrt 3, sy / sqrt 3, sz / sqrt 3)"
proof -
  have c: "ori \<in> {V3d_XposYposZpos, V3d_XposYnegZpos, V3d_XposYposZneg,
      V3d_XnegYposZpos, V3d_XposYnegZneg, V3d_XnegYposZneg, V3d_XnegYnegZpos, V3d_XnegYnegZneg}"
    using assms by (simp only: IsBoxCorner_iff)
  have n: "normalized (- 1) b c = (- 1 / sqrt 3, b / sqrt 3, c / sqrt 3)"
       "normalized 1 b c = (1 / sqrt 3, b / sqrt 3, c / sqrt 3)"
    if "\<bar>b\<bar> = 1" "\<bar>c\<bar> = 1" for b c :: real
    using normalized_corner [of "- 1" b c] normalized_corner [of 1 b c] that by simp_all
  from c show ?thesis
    by (elim insertE emptyE; simp only: GetProjAxis.simps)
       (rule exI [of _ 1] exI [of _ "- 1"], rule exI [of _ 1] exI [of _ "- 1"],
        rule exI [of _ 1] exI [of _ "- 1"], simp add: n)+
qed


lemma setNormals_loop_Vertice: "Vertice i (setNormals_loop n j t) = Vertice i t"
  by (simp add: Vertice_def setNormals_loop_frame)

lemma setNormals_loop_all:
  assumes "length (Normals t) = VertexNumber t"
  shows "setNormals_loop n 1 t = t\<lparr>Normals := replicate (VertexNumber t) n\<rparr>"
proof -
  have "Normals (setNormals_loop n 1 t) = replicate (VertexNumber t) n"
  proof (rule nth_equalityI)
    show "length (Normals (setNormals_loop n 1 t)) = length (replicate (VertexNumber t) n)"
      using assms by (simp add: setNormals_loop_frame)
  next
    fix j
    assume "j < length (Normals (setNormals_loop n 1 t))"
    then have j: "j < VertexNumber t"
      using assms by (simp add: setNormals_loop_frame)
    show "Normals (setNormals_loop n 1 t) ! j = replicate (VertexNumber t) n ! j"
      using setNormals_loop_Normals [OF _ assms j, of 1 n] j by simp
  qed
  then show ?thesis
    by (intro Graphic3d_ArrayOfTriangles.equality) (simp_all add: setNormals_loop_frame)
qed

lemma sharp_corner_eval:
  assumes ax: "GetProjAxis ori = (sx / sqrt 3, sy / sqrt 3, sz / sqrt 3)"
    and s: "\<bar>sx\<bar> = 1" "\<bar>sy\<bar> = 1" "\<bar>sz\<bar> = 1"
    and r: "\<not> myRoundRadius c > 0"
  shows "createBoxCornerTriangles thePlacement theToolDisk c ori =
      Inr \<lparr>maxVertexs = 3, maxEdges = 3,
           Vertices =
             [(sx * (mySize c / 2) + sx * myBoxFacetExtension c, sy * (mySize c / 2), sz * (mySize c / 2)),
              (sx * (mySize c / 2), sy * (mySize c / 2) + sy * myBoxFacetExtension c, sz * (mySize c / 2)),
              (sx * (mySize c / 2), sy * (mySize c / 2), sz * (mySize c / 2) + sz * myBoxFacetExtension c)],
           Normals = replicate 3 (sx / sqrt 3, sy / sqrt 3, sz / sqrt 3),
           Edges =
             (if sx * sy * sz * (myBoxFacetExtension c * myBoxFacetExtension c) < 0
              then [1, 3, 2] else [1, 2, 3])\<rparr>"
proof -
  have sg: "sgn (sx / sqrt 3) = sx" "sgn (sy / sqrt 3) = sy" "sgn (sz / sqrt 3) = sz"
    using s by (auto simp: sgn_real_def abs_if split: if_splits)
  have big: "Resolution < \<bar>sx / sqrt 3\<bar>" "Resolution < \<bar>sy / sqrt 3\<bar>" "Resolution < \<bar>sz / sqrt 3\<bar>"
    using s Resolution_lt_inv_sqrt3 by simp_all
  have d: "gp_Dir (sx / sqrt 3) 0 0 = Inr (sx, 0, 0)"
      "gp_Dir 0 (sy / sqrt 3) 0 = Inr (0, sy, 0)"
      "gp_Dir 0 0 (sz / sqrt 3) = Inr (0, 0, sz)"
    using gp_Dir_axis(1) [OF big(1)] gp_Dir_axis(2) [OF big(2)] gp_Dir_axis(3) [OF big(3)]
    by (simp_all only: sg)
  have m3: "Modulus (1, 1, 1) = sqrt 3"
    by (simp add: Modulus_def gp_X_def gp_Y_def gp_Z_def)
  have hs: "Multiplied (sx / sqrt 3, sy / sqrt 3, sz / sqrt 3) (mySize c * 0.5 * sqrt 3)
      = (sx * (mySize c / 2), sy * (mySize c / 2), sz * (mySize c / 2))"
    by (simp add: Multiplied_def gp_X_def gp_Y_def gp_Z_def)
  define e where "e = myBoxFacetExtension c"
  define p where "p = (sx * (mySize c / 2), sy * (mySize c / 2), sz * (mySize c / 2))"
  define t3 where "t3 =
      AddVertex (Added p (Multiplied (0, 0, sz) e))
       (AddVertex (Added p (Multiplied (0, sy, 0) e))
         (AddVertex (Added p (Multiplied (sx, 0, 0) e)) (new_ArrayOfTriangles 3 3)))"
  have v3: "Vertices t3 =
      [(sx * (mySize c / 2) + sx * e, sy * (mySize c / 2), sz * (mySize c / 2)),
       (sx * (mySize c / 2), sy * (mySize c / 2) + sy * e, sz * (mySize c / 2)),
       (sx * (mySize c / 2), sy * (mySize c / 2), sz * (mySize c / 2) + sz * e)]"
    by (simp add: t3_def p_def AddVertex_simps new_ArrayOfTriangles_simps Added_def Multiplied_def
          gp_X_def gp_Y_def gp_Z_def)
  have dot: "Dot (Crossed (Subtracted (Vertice 2 t3) (Vertice 1 t3))
                          (Subtracted (Vertice 3 t3) (Vertice 1 t3)))
                 (sx / sqrt 3, sy / sqrt 3, sz / sqrt 3)
             = sx * sy * sz * (e * e) * sqrt 3"
  proof -
    have sq: "sx * sx = 1" "sy * sy = 1" "sz * sz = 1"
      using s by (auto simp: abs_if split: if_splits)
    have "Dot (Crossed (Subtracted (Vertice 2 t3) (Vertice 1 t3))
                          (Subtracted (Vertice 3 t3) (Vertice 1 t3)))
                 (sx / sqrt 3, sy / sqrt 3, sz / sqrt 3)
          = 3 * (sx * sy * sz * (e * e)) / sqrt 3"
      by (simp add: Vertice_def v3 Dot_def Crossed_def Subtracted_def gp_X_def gp_Y_def gp_Z_def
            field_simps)
    also have "\<dots> = sx * sy * sz * (e * e) * sqrt 3"
      by (simp add: field_simps)
    finally show ?thesis .
  qed
  have neg: "(sx * sy * sz * (e * e) * sqrt 3 < 0) = (sx * sy * sz * (e * e) < 0)"
    by (simp add: mult_less_0_iff)
  have create: "createBoxCornerTriangles thePlacement theToolDisk c ori =
      Inr (setNormals_loop (sx / sqrt 3, sy / sqrt 3, sz / sqrt 3) 1
            (if sx * sy * sz * (e * e) < 0 then AddEdges 1 3 2 t3 else AddEdges 1 2 3 t3))"
    unfolding createBoxCornerTriangles_def Let_def ax
    by (simp only: r if_False gp_X_def gp_Y_def gp_Z_def fst_conv snd_conv d sum.case m3 hs
          e_def [symmetric] p_def [symmetric] t3_def [symmetric] dot neg)
  have t3: "t3 = \<lparr>maxVertexs = 3, maxEdges = 3,
           Vertices =
             [(sx * (mySize c / 2) + sx * e, sy * (mySize c / 2), sz * (mySize c / 2)),
              (sx * (mySize c / 2), sy * (mySize c / 2) + sy * e, sz * (mySize c / 2)),
              (sx * (mySize c / 2), sy * (mySize c / 2), sz * (mySize c / 2) + sz * e)],
           Normals = [(0, 0, 0), (0, 0, 0), (0, 0, 0)], Edges = []\<rparr>"
    by (simp add: t3_def p_def AddVertex_def new_ArrayOfTriangles_def Added_def Multiplied_def
          gp_X_def gp_Y_def gp_Z_def)
  define t4 where "t4 = (if sx * sy * sz * (e * e) < 0 then AddEdges 1 3 2 t3 else AddEdges 1 2 3 t3)"
  have t4: "t4 = t3\<lparr>Edges := (if sx * sy * sz * (e * e) < 0 then [1, 3, 2] else [1, 2, 3])\<rparr>"
    by (simp add: t4_def t3 AddEdges_def AddEdge_def)
  have len: "length (Normals t4) = VertexNumber t4" and n4: "VertexNumber t4 = 3"
    by (simp_all add: t4 t3 VertexNumber_def)
  show ?thesis
    unfolding create t4_def [symmetric] setNormals_loop_all [OF len] n4 e_def [symmetric]
    by (simp add: t4 t3)
qed

lemma GetProjAxis_corner_examples:
  "GetProjAxis V3d_XposYposZpos = (1 / sqrt 3, 1 / sqrt 3, 1 / sqrt 3)"
  "GetProjAxis V3d_XposYnegZpos = (1 / sqrt 3, - 1 / sqrt 3, 1 / sqrt 3)"
  using normalized_corner [of 1 1 1] normalized_corner [of 1 "- 1" 1] by simp_all


text \<open>
  C6, as the code has it. For a corner orientation and a round radius of 0, whatever the
  facet extension, the builder returns one triangle. Its three vertices are the corner of the
  cube (each coordinate half the size, with the sign of the direction's component), moved
  along the X, the Y and the Z axis in turn by the facet extension in the sign of that
  component. The triangle is \<open>(1, 2, 3)\<close>, or \<open>(1, 3, 2)\<close> when the normal of
  \<open>(1, 2, 3)\<close> has a negative dot product with the direction. Every vertex normal is the
  direction. When the facet extension is not 0, the normal of the triangle as emitted (the
  cross product of its two edges at its first vertex) has a positive dot product with the
  direction; when it is 0, that dot product is 0. Coordinates are real numbers here: an
  extension too small to change a coordinate in the machine's arithmetic behaves as 0 there.
\<close>

theorem sharp_corner_faces_outward:
  assumes "IsBoxCorner ori" and "myRoundRadius c = 0"
  shows "\<exists>m. createBoxCornerTriangles thePlacement theToolDisk c ori = Inr m
      \<and> Vertices m =
          [Added (Multiplied (sgn (gp_X (GetProjAxis ori)), sgn (gp_Y (GetProjAxis ori)),
                              sgn (gp_Z (GetProjAxis ori))) (mySize c / 2))
                 (Multiplied (sgn (gp_X (GetProjAxis ori)), 0, 0) (myBoxFacetExtension c)),
           Added (Multiplied (sgn (gp_X (GetProjAxis ori)), sgn (gp_Y (GetProjAxis ori)),
                              sgn (gp_Z (GetProjAxis ori))) (mySize c / 2))
                 (Multiplied (0, sgn (gp_Y (GetProjAxis ori)), 0) (myBoxFacetExtension c)),
           Added (Multiplied (sgn (gp_X (GetProjAxis ori)), sgn (gp_Y (GetProjAxis ori)),
                              sgn (gp_Z (GetProjAxis ori))) (mySize c / 2))
                 (Multiplied (0, 0, sgn (gp_Z (GetProjAxis ori))) (myBoxFacetExtension c))]
      \<and> Normals m = replicate 3 (GetProjAxis ori)
      \<and> Edges m =
          (if Dot (Crossed (Subtracted (Vertice 2 m) (Vertice 1 m))
                           (Subtracted (Vertice 3 m) (Vertice 1 m))) (GetProjAxis ori) < 0
           then [1, 3, 2] else [1, 2, 3])
      \<and> length (Edges m) = 3
      \<and> (myBoxFacetExtension c \<noteq> 0 \<longrightarrow>
           0 < Dot (Crossed (Subtracted (Vertice (Edges m ! 1) m) (Vertice (Edges m ! 0) m))
                          (Subtracted (Vertice (Edges m ! 2) m) (Vertice (Edges m ! 0) m)))
                 (GetProjAxis ori))
      \<and> (myBoxFacetExtension c = 0 \<longrightarrow>
           Dot (Crossed (Subtracted (Vertice (Edges m ! 1) m) (Vertice (Edges m ! 0) m))
                          (Subtracted (Vertice (Edges m ! 2) m) (Vertice (Edges m ! 0) m)))
                 (GetProjAxis ori) = 0)"
proof -
  obtain sx sy sz where s: "\<bar>sx\<bar> = 1" "\<bar>sy\<bar> = 1" "\<bar>sz\<bar> = 1"
    and ax: "GetProjAxis ori = (sx / sqrt 3, sy / sqrt 3, sz / sqrt 3)"
    using corner_axis [OF assms(1)] by blast
  have sg: "sgn sx = sx" "sgn sy = sy" "sgn sz = sz"
    using s by (auto simp: sgn_real_def abs_if split: if_splits)
  have sq: "sx * sx = 1" "sy * sy = 1" "sz * sz = 1"
    using s by (auto simp: abs_if split: if_splits)
  define e where "e = myBoxFacetExtension c"
  define k where "k = sx * sy * sz * (e * e)"
  have r: "\<not> myRoundRadius c > 0"
    using assms(2) by simp
  obtain m where m: "createBoxCornerTriangles thePlacement theToolDisk c ori = Inr m"
    and nm: "Normals m = replicate 3 (sx / sqrt 3, sy / sqrt 3, sz / sqrt 3)"
    and v: "Vertices m =
          [(sx * (mySize c / 2) + sx * e, sy * (mySize c / 2), sz * (mySize c / 2)),
           (sx * (mySize c / 2), sy * (mySize c / 2) + sy * e, sz * (mySize c / 2)),
           (sx * (mySize c / 2), sy * (mySize c / 2), sz * (mySize c / 2) + sz * e)]"
    and ed: "Edges m = (if k < 0 then [1, 3, 2] else [1, 2, 3])"
    using sharp_corner_eval [OF ax s r, of thePlacement theToolDisk]
    unfolding e_def k_def by simp
  have k0: "k \<noteq> 0" if "myBoxFacetExtension c \<noteq> 0"
  proof -
    have "\<bar>k\<bar> = \<bar>sx\<bar> * \<bar>sy\<bar> * \<bar>sz\<bar> * (\<bar>e\<bar> * \<bar>e\<bar>)"
      unfolding k_def by (simp add: abs_mult)
    also have "\<dots> = \<bar>e\<bar> * \<bar>e\<bar>"
      using s by simp
    finally show ?thesis
      using that unfolding e_def by auto
  qed
  have kz: "k = 0" if "myBoxFacetExtension c = 0"
    using that unfolding k_def e_def by simp
  have dot123: "Dot (Crossed (Subtracted (Vertice 2 m) (Vertice 1 m))
                             (Subtracted (Vertice 3 m) (Vertice 1 m))) (GetProjAxis ori)
                = k * sqrt 3"
  proof -
    have "Dot (Crossed (Subtracted (Vertice 2 m) (Vertice 1 m))
                       (Subtracted (Vertice 3 m) (Vertice 1 m))) (GetProjAxis ori)
          = 3 * k / sqrt 3"
      unfolding ax k_def
      by (simp add: Vertice_def v Dot_def Crossed_def Subtracted_def gp_X_def gp_Y_def gp_Z_def
            field_simps)
    also have "\<dots> = k * sqrt 3"
      by (simp add: field_simps)
    finally show ?thesis .
  qed
  have dot132: "Dot (Crossed (Subtracted (Vertice 3 m) (Vertice 1 m))
                             (Subtracted (Vertice 2 m) (Vertice 1 m))) (GetProjAxis ori)
                = - k * sqrt 3"
  proof -
    have "Dot (Crossed (Subtracted (Vertice 3 m) (Vertice 1 m))
                       (Subtracted (Vertice 2 m) (Vertice 1 m))) (GetProjAxis ori)
          = - (3 * k / sqrt 3)"
      unfolding ax k_def
      by (simp add: Vertice_def v Dot_def Crossed_def Subtracted_def gp_X_def gp_Y_def gp_Z_def
            field_simps)
    also have "\<dots> = - k * sqrt 3"
      by (simp add: field_simps)
    finally show ?thesis .
  qed
  have neg: "(k * sqrt 3 < 0) = (k < 0)"
    by (simp add: mult_less_0_iff)
  have verts: "Vertices m =
          [Added (Multiplied (sgn (gp_X (GetProjAxis ori)), sgn (gp_Y (GetProjAxis ori)),
                              sgn (gp_Z (GetProjAxis ori))) (mySize c / 2))
                 (Multiplied (sgn (gp_X (GetProjAxis ori)), 0, 0) (myBoxFacetExtension c)),
           Added (Multiplied (sgn (gp_X (GetProjAxis ori)), sgn (gp_Y (GetProjAxis ori)),
                              sgn (gp_Z (GetProjAxis ori))) (mySize c / 2))
                 (Multiplied (0, sgn (gp_Y (GetProjAxis ori)), 0) (myBoxFacetExtension c)),
           Added (Multiplied (sgn (gp_X (GetProjAxis ori)), sgn (gp_Y (GetProjAxis ori)),
                              sgn (gp_Z (GetProjAxis ori))) (mySize c / 2))
                 (Multiplied (0, 0, sgn (gp_Z (GetProjAxis ori))) (myBoxFacetExtension c))]"
    unfolding v ax e_def
    by (simp add: gp_X_def gp_Y_def gp_Z_def sg Added_def Multiplied_def)
  have edges: "Edges m =
          (if Dot (Crossed (Subtracted (Vertice 2 m) (Vertice 1 m))
                           (Subtracted (Vertice 3 m) (Vertice 1 m))) (GetProjAxis ori) < 0
           then [1, 3, 2] else [1, 2, 3])"
    unfolding dot123 neg by (rule ed)
  have len: "length (Edges m) = 3"
    by (simp add: ed)
  have outward: "myBoxFacetExtension c \<noteq> 0 \<longrightarrow>
           0 < Dot (Crossed (Subtracted (Vertice (Edges m ! 1) m) (Vertice (Edges m ! 0) m))
                          (Subtracted (Vertice (Edges m ! 2) m) (Vertice (Edges m ! 0) m)))
                 (GetProjAxis ori)"
  proof
    assume nz: "myBoxFacetExtension c \<noteq> 0"
    show "0 < Dot (Crossed (Subtracted (Vertice (Edges m ! 1) m) (Vertice (Edges m ! 0) m))
                          (Subtracted (Vertice (Edges m ! 2) m) (Vertice (Edges m ! 0) m)))
                 (GetProjAxis ori)"
    proof (cases "k < 0")
      case True
      then have i: "Edges m ! 0 = 1" "Edges m ! 1 = 3" "Edges m ! 2 = 2"
        by (simp_all add: ed)
      from True have "0 < - k * sqrt 3"
        by (simp add: mult_less_0_iff)
      then show ?thesis
        unfolding i dot132 .
    next
      case False
      then have i: "Edges m ! 0 = 1" "Edges m ! 1 = 2" "Edges m ! 2 = 3"
        by (simp_all add: ed)
      from False k0 [OF nz] have "0 < k" by simp
      then have "0 < k * sqrt 3" by simp
      then show ?thesis
        unfolding i dot123 .
    qed
  qed
  have flat: "myBoxFacetExtension c = 0 \<longrightarrow>
           Dot (Crossed (Subtracted (Vertice (Edges m ! 1) m) (Vertice (Edges m ! 0) m))
                          (Subtracted (Vertice (Edges m ! 2) m) (Vertice (Edges m ! 0) m)))
                 (GetProjAxis ori) = 0"
  proof
    assume z: "myBoxFacetExtension c = 0"
    have i: "Edges m ! 0 = 1" "Edges m ! 1 = 2" "Edges m ! 2 = 3"
      using kz [OF z] by (simp_all add: ed)
    show "Dot (Crossed (Subtracted (Vertice (Edges m ! 1) m) (Vertice (Edges m ! 0) m))
                          (Subtracted (Vertice (Edges m ! 2) m) (Vertice (Edges m ! 0) m)))
                 (GetProjAxis ori) = 0"
      unfolding i dot123 kz [OF z] by simp
  qed
  show ?thesis
    using m verts nm [folded ax] edges len outward flat by blast
qed

theorem sharp_corner_faces_outward_witness:
  "IsBoxCorner V3d_XposYnegZpos \<and> myRoundRadius new_AIS_ViewCube = 0
   \<and> myBoxFacetExtension new_AIS_ViewCube \<noteq> 0
   \<and> (\<exists>m. createBoxCornerTriangles (\<lambda>p d. identity_Trsf) (\<lambda>r0 r1 n0 n1 t. new_ArrayOfTriangles 0 0)
              new_AIS_ViewCube V3d_XposYnegZpos = Inr m
        \<and> Vertices m = [(91 / 2, - 35, 35), (35, - (91 / 2), 35), (35, - 35, 91 / 2)]
        \<and> Edges m = [1, 3, 2]
        \<and> 0 < Dot (Crossed (Subtracted (Vertice 3 m) (Vertice 1 m))
                            (Subtracted (Vertice 2 m) (Vertice 1 m)))
                   (GetProjAxis V3d_XposYnegZpos))"
proof -
  have h: "IsBoxCorner V3d_XposYnegZpos" "myRoundRadius new_AIS_ViewCube = 0"
    by (simp_all add: IsBoxCorner_iff new_AIS_ViewCube_def)
  have nz: "myBoxFacetExtension new_AIS_ViewCube \<noteq> 0"
    by (simp add: new_AIS_ViewCube_def)
  obtain m where m: "createBoxCornerTriangles (\<lambda>p d. identity_Trsf)
        (\<lambda>r0 r1 n0 n1 t. new_ArrayOfTriangles 0 0) new_AIS_ViewCube V3d_XposYnegZpos = Inr m"
    and v: "Vertices m =
          [Added (Multiplied (sgn (gp_X (GetProjAxis V3d_XposYnegZpos)),
                              sgn (gp_Y (GetProjAxis V3d_XposYnegZpos)),
                              sgn (gp_Z (GetProjAxis V3d_XposYnegZpos))) (mySize new_AIS_ViewCube / 2))
                 (Multiplied (sgn (gp_X (GetProjAxis V3d_XposYnegZpos)), 0, 0)
                    (myBoxFacetExtension new_AIS_ViewCube)),
           Added (Multiplied (sgn (gp_X (GetProjAxis V3d_XposYnegZpos)),
                              sgn (gp_Y (GetProjAxis V3d_XposYnegZpos)),
                              sgn (gp_Z (GetProjAxis V3d_XposYnegZpos))) (mySize new_AIS_ViewCube / 2))
                 (Multiplied (0, sgn (gp_Y (GetProjAxis V3d_XposYnegZpos)), 0)
                    (myBoxFacetExtension new_AIS_ViewCube)),
           Added (Multiplied (sgn (gp_X (GetProjAxis V3d_XposYnegZpos)),
                              sgn (gp_Y (GetProjAxis V3d_XposYnegZpos)),
                              sgn (gp_Z (GetProjAxis V3d_XposYnegZpos))) (mySize new_AIS_ViewCube / 2))
                 (Multiplied (0, 0, sgn (gp_Z (GetProjAxis V3d_XposYnegZpos)))
                    (myBoxFacetExtension new_AIS_ViewCube))]"
    and e: "Edges m =
          (if Dot (Crossed (Subtracted (Vertice 2 m) (Vertice 1 m))
                           (Subtracted (Vertice 3 m) (Vertice 1 m))) (GetProjAxis V3d_XposYnegZpos) < 0
           then [1, 3, 2] else [1, 2, 3])"
    and o: "myBoxFacetExtension new_AIS_ViewCube \<noteq> 0 \<longrightarrow>
                 0 < Dot (Crossed (Subtracted (Vertice (Edges m ! 1) m) (Vertice (Edges m ! 0) m))
                          (Subtracted (Vertice (Edges m ! 2) m) (Vertice (Edges m ! 0) m)))
                 (GetProjAxis V3d_XposYnegZpos)"
    using sharp_corner_faces_outward [OF h] by blast
  have v': "Vertices m = [(91 / 2, - 35, 35), (35, - (91 / 2), 35), (35, - 35, 91 / 2)]"
    unfolding v GetProjAxis_corner_examples
    by (simp add: new_AIS_ViewCube_def gp_X_def gp_Y_def gp_Z_def Added_def Multiplied_def
          sgn_real_def)
  have d: "Dot (Crossed (Subtracted (Vertice 2 m) (Vertice 1 m))
                        (Subtracted (Vertice 3 m) (Vertice 1 m))) (GetProjAxis V3d_XposYnegZpos) < 0"
    unfolding GetProjAxis_corner_examples Vertice_def v'
    by (simp add: Dot_def Crossed_def Subtracted_def gp_X_def gp_Y_def gp_Z_def field_simps)
  have e': "Edges m = [1, 3, 2]"
    using e d by simp
  have o': "0 < Dot (Crossed (Subtracted (Vertice 3 m) (Vertice 1 m))
                            (Subtracted (Vertice 2 m) (Vertice 1 m)))
                   (GetProjAxis V3d_XposYnegZpos)"
    using o nz unfolding e' by simp
  show ?thesis
    using h nz m v' e' o' by blast
qed


text \<open>
  C6 as stated covers every cube. With a facet extension of 0, which the style accepts, the
  three vertices are the corner of the cube itself, the normal is the null vector and its
  dot product with the direction is 0, not positive.
\<close>

theorem sharp_corner_zero_extension_flat:
  "IsBoxCorner V3d_XposYposZpos
   \<and> myRoundRadius (new_AIS_ViewCube\<lparr>myBoxFacetExtension := 0\<rparr>) = 0
   \<and> createBoxCornerTriangles (\<lambda>p d. identity_Trsf) (\<lambda>r0 r1 n0 n1 t. new_ArrayOfTriangles 0 0)
        (new_AIS_ViewCube\<lparr>myBoxFacetExtension := 0\<rparr>) V3d_XposYposZpos
       = Inr \<lparr>maxVertexs = 3, maxEdges = 3,
              Vertices = [(35, 35, 35), (35, 35, 35), (35, 35, 35)],
              Normals = replicate 3 (GetProjAxis V3d_XposYposZpos),
              Edges = [1, 2, 3]\<rparr>
   \<and> Dot (Crossed (Subtracted (35, 35, 35) (35, 35, 35)) (Subtracted (35, 35, 35) (35, 35, 35)))
         (GetProjAxis V3d_XposYposZpos) = 0"
proof -
  have r: "\<not> myRoundRadius (new_AIS_ViewCube\<lparr>myBoxFacetExtension := 0\<rparr>) > 0"
    by (simp add: new_AIS_ViewCube_def)
  have one: "\<bar>1 :: real\<bar> = 1"
    by simp
  note t = sharp_corner_eval [OF GetProjAxis_corner_examples(1) one one one r,
      of "\<lambda>p d. identity_Trsf" "\<lambda>r0 r1 n0 n1 t. new_ArrayOfTriangles 0 0"]
  have m: "createBoxCornerTriangles (\<lambda>p d. identity_Trsf) (\<lambda>r0 r1 n0 n1 t. new_ArrayOfTriangles 0 0)
        (new_AIS_ViewCube\<lparr>myBoxFacetExtension := 0\<rparr>) V3d_XposYposZpos
       = Inr \<lparr>maxVertexs = 3, maxEdges = 3,
              Vertices = [(35, 35, 35), (35, 35, 35), (35, 35, 35)],
              Normals = replicate 3 (GetProjAxis V3d_XposYposZpos),
              Edges = [1, 2, 3]\<rparr>"
    unfolding t GetProjAxis_corner_examples by (simp add: new_AIS_ViewCube_def)
  have d: "Dot (Crossed (Subtracted (35, 35, 35) (35, 35, 35)) (Subtracted (35, 35, 35) (35, 35, 35)))
         (GetProjAxis V3d_XposYposZpos) = 0"
    by (simp add: Dot_def Crossed_def Subtracted_def gp_X_def gp_Y_def gp_Z_def)
  show ?thesis
    using m d by (simp add: IsBoxCorner_iff new_AIS_ViewCube_def)
qed

section \<open>Angles between vectors\<close>

lemma Modulus_nonneg: "0 \<le> Modulus a"
  by (simp add: Modulus_def)

lemma Modulus_square: "Modulus a * Modulus a = Dot a a"
  by (simp add: Modulus_def Dot_def)

lemma Modulus_pos_iff: "0 < Modulus a \<longleftrightarrow> a \<noteq> (0, 0, 0)"
proof -
  obtain x y z where a: "a = (x, y, z)"
    by (cases a) auto
  have "x * x + y * y + z * z = 0 \<longleftrightarrow> x = 0 \<and> y = 0 \<and> z = 0"
    by (metis (no_types, opaque_lifting) add_nonneg_eq_0_iff mult_eq_0_iff zero_le_square add.right_neutral add_nonneg_nonneg)
  then show ?thesis
    unfolding a Modulus_def gp_X_def gp_Y_def gp_Z_def
    by (auto simp: less_le)
qed

lemma Cauchy_Schwarz: "\<bar>Dot a b\<bar> \<le> Modulus a * Modulus b"
proof -
  obtain x y z where a: "a = (x, y, z)"
    by (cases a) auto
  obtain u v w where b: "b = (u, v, w)"
    by (cases b) auto
  have "(Modulus a * Modulus b)\<^sup>2 - (Dot a b)\<^sup>2
      = (x * v - y * u)\<^sup>2 + (x * w - z * u)\<^sup>2 + (y * w - z * v)\<^sup>2"
  proof -
    have "(Modulus a * Modulus b)\<^sup>2 = Dot a a * Dot b b"
      using Modulus_square [of a] Modulus_square [of b]
      by (simp add: power2_eq_square algebra_simps)
    then show ?thesis
      unfolding a b Dot_def gp_X_def gp_Y_def gp_Z_def
      by (simp add: power2_eq_square algebra_simps)
  qed
  moreover have "0 \<le> (x * v - y * u)\<^sup>2 + (x * w - z * u)\<^sup>2 + (y * w - z * v)\<^sup>2"
    by simp
  ultimately have "(Dot a b)\<^sup>2 \<le> (Modulus a * Modulus b)\<^sup>2"
    by linarith
  then have "\<bar>Dot a b\<bar> \<le> \<bar>Modulus a * Modulus b\<bar>"
    by (simp only: abs_le_square_iff)
  then show ?thesis
    using Modulus_nonneg [of a] Modulus_nonneg [of b] by simp
qed

lemma cosine_bounds:
  "- 1 \<le> Dot a b / (Modulus a * Modulus b) \<and> Dot a b / (Modulus a * Modulus b) \<le> 1"
proof (cases "Modulus a * Modulus b = 0")
  case True
  show ?thesis
    unfolding True by simp
next
  case False
  then have p: "0 < Modulus a * Modulus b"
    using Modulus_nonneg [of a] Modulus_nonneg [of b]
    by (metis less_le mult_nonneg_nonneg)
  have "\<bar>Dot a b / (Modulus a * Modulus b)\<bar> \<le> 1"
    using Cauchy_Schwarz [of a b] p by (simp add: field_simps)
  then show ?thesis
    unfolding abs_le_iff by linarith
qed

lemma Angle_bounds: "0 \<le> Angle a b \<and> Angle a b \<le> pi"
  unfolding Angle_def using cosine_bounds [of a b] by (simp add: arccos_lbound arccos_ubound)

lemma within_tolerance_of_right_angle:
  assumes "- 1 \<le> c" and "c \<le> 1" and "0 \<le> tol" and "tol \<le> pi / 2"
  shows "(\<bar>pi / 2 - arccos c\<bar> \<le> tol) = (\<bar>c\<bar> \<le> sin tol)"
proof -
  have "pi / 2 - arccos c = arcsin c"
    using arcsin_arccos_eq [OF assms(1,2)] by simp
  then have "(\<bar>pi / 2 - arccos c\<bar> \<le> tol) = (- tol \<le> arcsin c \<and> arcsin c \<le> tol)"
    by (simp add: abs_le_iff) linarith
  also have "\<dots> = (sin (- tol) \<le> c \<and> c \<le> sin tol)"
    using le_arcsin_iff [of c "- tol"] arcsin_le_iff [of c tol] assms by simp
  also have "\<dots> = (\<bar>c\<bar> \<le> sin tol)"
    by (simp add: abs_le_iff) linarith
  finally show ?thesis .
qed

lemma IsNormal_dot:
  assumes "a \<noteq> (0, 0, 0)" and "Modulus b = 1" and "0 \<le> tol" and "tol \<le> pi / 2"
  shows "IsNormal a b tol = (\<bar>Dot a b\<bar> \<le> Modulus a * sin tol)"
proof -
  have p: "0 < Modulus a"
    using assms(1) by (simp add: Modulus_pos_iff)
  have "IsNormal a b tol = (\<bar>Dot a b / Modulus a\<bar> \<le> sin tol)"
    unfolding IsNormal_def Angle_def
    using within_tolerance_of_right_angle [of "Dot a b / (Modulus a * Modulus b)" tol]
      cosine_bounds [of a b] assms(2,3,4) by simp
  also have "\<dots> = (\<bar>Dot a b\<bar> \<le> Modulus a * sin tol)"
    using p by (simp add: field_simps)
  finally show ?thesis .
qed

lemma Modulus_GetProjAxis: "Modulus (GetProjAxis ori) = 1"
  by (cases ori)
     (simp_all add: Modulus_def normalized_def Let_def gp_X_def gp_Y_def gp_Z_def
        add_divide_distrib [symmetric])

section \<open>The ray filter\<close>

lemma sin_ten_degrees: "0 < sin (10 * pi / 180)" "sin (10 * pi / 180) < 1"
proof -
  have b: "0 < 10 * pi / 180" "10 * pi / 180 < pi / 2"
    using pi_gt_zero by simp_all
  show "0 < sin (10 * pi / 180)"
    using pi_gt_zero by (intro sin_gt_zero) simp_all
  have "sin (10 * pi / 180) < sin (pi / 2)"
    using b by (intro sin_monotone_2pi) simp_all
  then show "sin (10 * pi / 180) < 1"
    by simp
qed

lemma gp_Vec_null: "gp_Vec p q = (0, 0, 0) \<longleftrightarrow> p = q"
  by (cases p; cases q) (auto simp: gp_Vec_def Subtracted_def gp_X_def gp_Y_def gp_Z_def)

lemma Dot_Multiplied: "Dot (Multiplied a t) b = t * Dot a b"
  by (simp add: Dot_def Multiplied_def gp_X_def gp_Y_def gp_Z_def algebra_simps)

lemma Modulus_Multiplied: "Modulus (Multiplied a t) = \<bar>t\<bar> * Modulus a"
proof -
  have "Modulus (Multiplied a t) = sqrt (t * t * (Modulus a * Modulus a))"
    unfolding Modulus_square
    by (simp add: Modulus_def Dot_def Multiplied_def gp_X_def gp_Y_def gp_Z_def algebra_simps)
  also have "\<dots> = \<bar>t\<bar> * Modulus a"
    using Modulus_nonneg [of a] by (simp add: real_sqrt_mult)
  finally show ?thesis .
qed


text \<open>
  C4. For a pick region of the view cube (an owner with an orientation): a selection that is
  not a point selection is refused. A point selection is accepted exactly when the angle
  between the ray (from the near to the far picked point) and the direction of the
  orientation differs from a right angle by more than 10 degrees; for a ray that is not null
  this is to say that the magnitude of the ray's component along the direction exceeds the
  ray's length times the sine of 10 degrees, so that the boundary, 10 degrees from
  perpendicular, is itself refused. A ray along the direction, either way, is accepted, and
  a ray perpendicular to it is refused. The hit test of the base class is reached only for
  an accepted ray.
\<close>

theorem ray_filter_ten_degrees:
  "(GetActiveSelectionType theMgr \<noteq> Point \<longrightarrow> \<not> isValidRay (AIS_ViewCubeOwner ori) theMgr)
   \<and> (GetActiveSelectionType theMgr = Point \<longrightarrow>
        isValidRay (AIS_ViewCubeOwner ori) theMgr =
          (10 * pi / 180 <
             \<bar>pi / 2 - Angle (gp_Vec (GetNearPickedPnt theMgr) (GetFarPickedPnt theMgr))
                          (GetProjAxis ori)\<bar>))
   \<and> (GetActiveSelectionType theMgr = Point \<and> GetNearPickedPnt theMgr \<noteq> GetFarPickedPnt theMgr \<longrightarrow>
        isValidRay (AIS_ViewCubeOwner ori) theMgr =
          (Modulus (gp_Vec (GetNearPickedPnt theMgr) (GetFarPickedPnt theMgr)) * sin (10 * pi / 180)
             < \<bar>Dot (gp_Vec (GetNearPickedPnt theMgr) (GetFarPickedPnt theMgr)) (GetProjAxis ori)\<bar>))
   \<and> (GetActiveSelectionType theMgr = Point \<and> t \<noteq> 0
        \<and> gp_Vec (GetNearPickedPnt theMgr) (GetFarPickedPnt theMgr) = Multiplied (GetProjAxis ori) t \<longrightarrow>
        isValidRay (AIS_ViewCubeOwner ori) theMgr)
   \<and> (GetActiveSelectionType theMgr = Point \<and> GetNearPickedPnt theMgr \<noteq> GetFarPickedPnt theMgr
        \<and> Dot (gp_Vec (GetNearPickedPnt theMgr) (GetFarPickedPnt theMgr)) (GetProjAxis ori) = 0 \<longrightarrow>
        \<not> isValidRay (AIS_ViewCubeOwner ori) theMgr)
   \<and> Matches theBaseMatches myOwnerId theMgr = (isValidRay myOwnerId theMgr \<and> theBaseMatches theMgr)"
proof -
  define aRay where "aRay = gp_Vec (GetNearPickedPnt theMgr) (GetFarPickedPnt theMgr)"
  define aDir where "aDir = GetProjAxis ori"
  have unit: "Modulus aDir = 1"
    unfolding aDir_def by (rule Modulus_GetProjAxis)
  have tol: "0 \<le> 10 * pi / 180" "10 * pi / 180 \<le> pi / 2"
    using pi_gt_zero by simp_all
  have valid: "isValidRay (AIS_ViewCubeOwner ori) theMgr = (\<not> IsNormal aRay aDir (10 * pi / 180))"
    if "GetActiveSelectionType theMgr = Point"
    using that by (simp add: isValidRay_def Let_def aRay_def aDir_def)
  have a: "GetActiveSelectionType theMgr \<noteq> Point \<longrightarrow> \<not> isValidRay (AIS_ViewCubeOwner ori) theMgr"
    by (simp add: isValidRay_def)
  have b: "GetActiveSelectionType theMgr = Point \<longrightarrow>
        isValidRay (AIS_ViewCubeOwner ori) theMgr = (10 * pi / 180 < \<bar>pi / 2 - Angle aRay aDir\<bar>)"
    using valid by (auto simp: IsNormal_def)
  have dotform: "isValidRay (AIS_ViewCubeOwner ori) theMgr
        = (Modulus aRay * sin (10 * pi / 180) < \<bar>Dot aRay aDir\<bar>)"
    if "GetActiveSelectionType theMgr = Point" and "aRay \<noteq> (0, 0, 0)"
    using valid [OF that(1)] IsNormal_dot [OF that(2) unit tol] by auto
  have c: "GetActiveSelectionType theMgr = Point \<and> GetNearPickedPnt theMgr \<noteq> GetFarPickedPnt theMgr \<longrightarrow>
        isValidRay (AIS_ViewCubeOwner ori) theMgr
          = (Modulus aRay * sin (10 * pi / 180) < \<bar>Dot aRay aDir\<bar>)"
    using dotform by (simp add: aRay_def gp_Vec_null)
  have d: "GetActiveSelectionType theMgr = Point \<and> t \<noteq> 0 \<and> aRay = Multiplied aDir t \<longrightarrow>
        isValidRay (AIS_ViewCubeOwner ori) theMgr"
  proof (intro impI, elim conjE)
    assume p: "GetActiveSelectionType theMgr = Point" and t: "t \<noteq> 0"
      and r: "aRay = Multiplied aDir t"
    have m: "Modulus aRay = \<bar>t\<bar>"
      unfolding r Modulus_Multiplied unit by simp
    have nz: "aRay \<noteq> (0, 0, 0)"
      using m t Modulus_pos_iff [of aRay] by simp
    have dd: "Dot aRay aDir = t"
      unfolding r Dot_Multiplied using Modulus_square [of aDir] unit by simp
    have "\<bar>t\<bar> * sin (10 * pi / 180) < \<bar>t\<bar> * 1"
      using t sin_ten_degrees(2) by (intro mult_strict_left_mono) simp_all
    then show "isValidRay (AIS_ViewCubeOwner ori) theMgr"
      unfolding dotform [OF p nz] m dd by simp
  qed
  have e: "GetActiveSelectionType theMgr = Point \<and> GetNearPickedPnt theMgr \<noteq> GetFarPickedPnt theMgr
        \<and> Dot aRay aDir = 0 \<longrightarrow> \<not> isValidRay (AIS_ViewCubeOwner ori) theMgr"
  proof (intro impI, elim conjE)
    assume p: "GetActiveSelectionType theMgr = Point"
      and n: "GetNearPickedPnt theMgr \<noteq> GetFarPickedPnt theMgr" and z: "Dot aRay aDir = 0"
    have nz: "aRay \<noteq> (0, 0, 0)"
      using n by (simp add: aRay_def gp_Vec_null)
    have "0 \<le> Modulus aRay * sin (10 * pi / 180)"
      using Modulus_nonneg [of aRay] sin_ten_degrees(1) by simp
    then show "\<not> isValidRay (AIS_ViewCubeOwner ori) theMgr"
      unfolding dotform [OF p nz] z by simp
  qed
  have f: "Matches theBaseMatches myOwnerId theMgr = (isValidRay myOwnerId theMgr \<and> theBaseMatches theMgr)"
    by (simp add: Matches_def)
  show ?thesis
    using a b c d e f unfolding aRay_def aDir_def by (intro conjI)
qed


theorem ray_filter_ten_degrees_witness:
  "Box \<noteq> Point
   \<and> \<not> isValidRay (AIS_ViewCubeOwner V3d_Xpos) \<lparr>GetActiveSelectionType = Box, GetNearPickedPnt = (0, 0, 0), GetFarPickedPnt = (5, 0, 0)\<rparr>
   \<and> (5 :: real) \<noteq> 0 \<and> gp_Vec (0, 0, 0) (5, 0, 0) = Multiplied (GetProjAxis V3d_Xpos) 5
   \<and> isValidRay (AIS_ViewCubeOwner V3d_Xpos) \<lparr>GetActiveSelectionType = Point, GetNearPickedPnt = (0, 0, 0), GetFarPickedPnt = (5, 0, 0)\<rparr>
   \<and> Matches (\<lambda>m. True) (AIS_ViewCubeOwner V3d_Xpos) \<lparr>GetActiveSelectionType = Point, GetNearPickedPnt = (0, 0, 0), GetFarPickedPnt = (5, 0, 0)\<rparr>
   \<and> ((0, 0, 0) :: gp_XYZ) \<noteq> (0, 5, 0)
   \<and> Dot (gp_Vec (0, 0, 0) (0, 5, 0)) (GetProjAxis V3d_Xpos) = 0
   \<and> \<not> isValidRay (AIS_ViewCubeOwner V3d_Xpos) \<lparr>GetActiveSelectionType = Point, GetNearPickedPnt = (0, 0, 0), GetFarPickedPnt = (0, 5, 0)\<rparr>
   \<and> \<not> Matches (\<lambda>m. True) (AIS_ViewCubeOwner V3d_Xpos) \<lparr>GetActiveSelectionType = Point, GetNearPickedPnt = (0, 0, 0), GetFarPickedPnt = (0, 5, 0)\<rparr>"
proof -
  have g: "gp_Vec (0, 0, 0) (5, 0, 0) = Multiplied (GetProjAxis V3d_Xpos) 5"
      "Dot (gp_Vec (0, 0, 0) (0, 5, 0)) (GetProjAxis V3d_Xpos) = 0"
    by (simp_all add: gp_Vec_def Subtracted_def Multiplied_def Dot_def gp_X_def gp_Y_def gp_Z_def)
  note tbox = ray_filter_ten_degrees
    [where theMgr = "\<lparr>GetActiveSelectionType = Box, GetNearPickedPnt = (0, 0, 0), GetFarPickedPnt = (5, 0, 0)\<rparr>"
       and ori = V3d_Xpos and t = 1 and theBaseMatches = "\<lambda>m. True"
       and myOwnerId = "AIS_ViewCubeOwner V3d_Xpos"]
  note tpar = ray_filter_ten_degrees
    [where theMgr = "\<lparr>GetActiveSelectionType = Point, GetNearPickedPnt = (0, 0, 0), GetFarPickedPnt = (5, 0, 0)\<rparr>"
       and ori = V3d_Xpos and t = 5 and theBaseMatches = "\<lambda>m. True"
       and myOwnerId = "AIS_ViewCubeOwner V3d_Xpos"]
  note tperp = ray_filter_ten_degrees
    [where theMgr = "\<lparr>GetActiveSelectionType = Point, GetNearPickedPnt = (0, 0, 0), GetFarPickedPnt = (0, 5, 0)\<rparr>"
       and ori = V3d_Xpos and t = 1 and theBaseMatches = "\<lambda>m. True"
       and myOwnerId = "AIS_ViewCubeOwner V3d_Xpos"]
  have a: "\<not> isValidRay (AIS_ViewCubeOwner V3d_Xpos) \<lparr>GetActiveSelectionType = Box, GetNearPickedPnt = (0, 0, 0), GetFarPickedPnt = (5, 0, 0)\<rparr>"
    using tbox [THEN conjunct1] by simp
  have b: "isValidRay (AIS_ViewCubeOwner V3d_Xpos) \<lparr>GetActiveSelectionType = Point, GetNearPickedPnt = (0, 0, 0), GetFarPickedPnt = (5, 0, 0)\<rparr>"
    using tpar [THEN conjunct2, THEN conjunct2, THEN conjunct2, THEN conjunct1] g(1) by simp
  have c: "\<not> isValidRay (AIS_ViewCubeOwner V3d_Xpos) \<lparr>GetActiveSelectionType = Point, GetNearPickedPnt = (0, 0, 0), GetFarPickedPnt = (0, 5, 0)\<rparr>"
    using tperp [THEN conjunct2, THEN conjunct2, THEN conjunct2, THEN conjunct2, THEN conjunct1]
      g(2) by simp
  have d: "Matches (\<lambda>m. True) (AIS_ViewCubeOwner V3d_Xpos) \<lparr>GetActiveSelectionType = Point, GetNearPickedPnt = (0, 0, 0), GetFarPickedPnt = (5, 0, 0)\<rparr>"
      "\<not> Matches (\<lambda>m. True) (AIS_ViewCubeOwner V3d_Xpos) \<lparr>GetActiveSelectionType = Point, GetNearPickedPnt = (0, 0, 0), GetFarPickedPnt = (0, 5, 0)\<rparr>"
    using b c
      tpar [THEN conjunct2, THEN conjunct2, THEN conjunct2, THEN conjunct2, THEN conjunct2]
      tperp [THEN conjunct2, THEN conjunct2, THEN conjunct2, THEN conjunct2, THEN conjunct2]
    by simp_all
  show ?thesis
    using g a b c d by simp
qed

section \<open>The up direction of the end pose\<close>

declare closestUp_loop.simps [simp del]

lemma closestUp_loop_invariant:
  assumes "i \<le> 4" and "k < i"
    and "anUpBest = anUpList ! k" and "aBestAngle = Angle (anUpList ! k) anOldUp"
    and "\<forall>j<i. Angle (anUpList ! k) anOldUp \<le> Angle (anUpList ! j) anOldUp"
    and "\<forall>j<k. Angle (anUpList ! k) anOldUp < Angle (anUpList ! j) anOldUp"
  shows "\<exists>k'<4. closestUp_loop anUpList anOldUp i (aBestAngle, anUpBest)
                   = (Angle (anUpList ! k') anOldUp, anUpList ! k')
          \<and> (\<forall>j<4. Angle (anUpList ! k') anOldUp \<le> Angle (anUpList ! j) anOldUp)
          \<and> (\<forall>j<k'. Angle (anUpList ! k') anOldUp < Angle (anUpList ! j) anOldUp)"
  using assms
proof (induction "4 - i" arbitrary: i k aBestAngle anUpBest)
  case 0
  then have i4: "i = 4" by simp
  have "closestUp_loop anUpList anOldUp i (aBestAngle, anUpBest) = (aBestAngle, anUpBest)"
    unfolding i4 by (subst closestUp_loop.simps) simp
  with "0.prems" i4 show ?case
    by (intro exI [of _ k]) simp
next
  case (Suc n anUpIter)
  note prems = Suc.prems
  let ?f = "\<lambda>j. Angle (anUpList ! j) anOldUp"
  show ?case
  proof -
    have True: "anUpIter < 4" and n: "n = 4 - (anUpIter + 1)" and le: "anUpIter + 1 \<le> 4"
      using Suc.hyps(2) by simp_all
    show ?thesis
    proof (cases "aBestAngle > ?f anUpIter")
      case better: True
      have step: "closestUp_loop anUpList anOldUp anUpIter (aBestAngle, anUpBest)
          = closestUp_loop anUpList anOldUp (anUpIter + 1) (?f anUpIter, anUpList ! anUpIter)"
        using True better by (subst closestUp_loop.simps) (simp add: Let_def)
      have a: "\<forall>j<anUpIter + 1. ?f anUpIter \<le> ?f j"
      proof (intro allI impI)
        fix j assume "j < anUpIter + 1"
        then consider "j < anUpIter" | "j = anUpIter" by linarith
        then show "?f anUpIter \<le> ?f j"
        proof cases
          case 1
          then have "?f k \<le> ?f j" using prems(5) by simp
          with better prems(4) show ?thesis by simp
        next
          case 2
          then show ?thesis by simp
        qed
      qed
      have b: "\<forall>j<anUpIter. ?f anUpIter < ?f j"
      proof (intro allI impI)
        fix j assume "j < anUpIter"
        then have "?f k \<le> ?f j" using prems(5) by simp
        with better prems(4) show "?f anUpIter < ?f j" by simp
      qed
      show ?thesis
        unfolding step
        using Suc.hyps(1) [OF n le _ refl refl a b]
        by simp
    next
      case worse: False
      have step: "closestUp_loop anUpList anOldUp anUpIter (aBestAngle, anUpBest)
          = closestUp_loop anUpList anOldUp (anUpIter + 1) (aBestAngle, anUpBest)"
        using True worse by (subst closestUp_loop.simps) (simp add: Let_def)
      have a: "\<forall>j<anUpIter + 1. ?f k \<le> ?f j"
      proof (intro allI impI)
        fix j assume "j < anUpIter + 1"
        then consider "j < anUpIter" | "j = anUpIter" by linarith
        then show "?f k \<le> ?f j"
        proof cases
          case 1
          then show ?thesis using prems(5) by simp
        next
          case 2
          with worse prems(4) show ?thesis by simp
        qed
      qed
      show ?thesis
        unfolding step
        using Suc.hyps(1) [OF n le _ prems(3) prems(4) a prems(6)] prems(2)
        by simp
    qed
  qed
qed

lemma Angle_lt_Infinite: "Angle a b < Precision_Infinite"
proof -
  have "Angle a b \<le> pi"
    using Angle_bounds by blast
  moreover have "pi < 4"
    using pi_less_4 .
  moreover have "(4 :: real) \<le> 2 * 10 ^ 100"
    by simp
  ultimately show ?thesis
    unfolding Precision_Infinite_def by linarith
qed

lemma closestUp_loop_first_minimum:
  "\<exists>k<4. closestUp_loop anUpList anOldUp 0 (Precision_Infinite, anUpBest0)
             = (Angle (anUpList ! k) anOldUp, anUpList ! k)
        \<and> (\<forall>j<4. Angle (anUpList ! k) anOldUp \<le> Angle (anUpList ! j) anOldUp)
        \<and> (\<forall>j<k. Angle (anUpList ! k) anOldUp < Angle (anUpList ! j) anOldUp)"
proof -
  have step: "closestUp_loop anUpList anOldUp 0 (Precision_Infinite, anUpBest0)
      = closestUp_loop anUpList anOldUp 1 (Angle (anUpList ! 0) anOldUp, anUpList ! 0)"
    using Angle_lt_Infinite [of "anUpList ! 0" anOldUp]
    by (subst closestUp_loop.simps) (simp add: Let_def)
  show ?thesis
    unfolding step
    by (rule closestUp_loop_invariant [where k = 0]) simp_all
qed

lemma StartAnimation_myEndState:
  "myEndState (StartAnimation theSetProj theFitAll theBnd (Some v) (Some ori) c) =
     theFitAll (if myToFitSelected c then theBnd else None)
       (if \<not> myToResetCameraUp c
           \<and> \<not> IsEqual (Direction (theSetProj ori (myIsYup c) (Camera v)))
                  (Direction (Camera v)) Precision_Angular
        then (theSetProj ori (myIsYup c) (Camera v))
               \<lparr>Up := snd (closestUp_loop
                             (anUpList_of (Up (theSetProj ori (myIsYup c) (Camera v)))
                                (Direction (theSetProj ori (myIsYup c) (Camera v))))
                             (Up (Camera v)) 0 (Precision_Infinite, (1, 0, 0)))\<rparr>
        else theSetProj ori (myIsYup c) (Camera v))"
  by (simp add: StartAnimation_def Let_def)


lemma Angle_axis_examples:
  "Angle (0, 0, 1) (0, 1, 0) = pi / 2"
  "Angle (0, 1, 0) (0, 1, 0) = 0"
  "Angle (0, 0, - 1) (0, 1, 0) = pi / 2"
  "Angle (0, - 1, 0) (0, 1, 0) = pi"
  "Angle (- 1, 0, 0) (0, 0, - 1) = pi / 2"
  "Angle (- 1, 0, 0) (- 1, 0, 0) = 0"
  "Angle (0, 0, 1) (0, 0, - 1) = pi"
  "Angle (0, 0, - 1) (0, 0, - 1) = 0"
  by (simp_all add: Angle_def Dot_def Modulus_def gp_X_def gp_Y_def gp_Z_def)

lemma Rotated_examples:
  "Rotated (0, 0, 1) (- 1, 0, 0) (pi / 2) = (0, 1, 0)"
  "Rotated (0, 0, 1) (- 1, 0, 0) pi = (0, 0, - 1)"
  "Rotated (0, 0, 1) (- 1, 0, 0) (pi * 1.5) = (0, - 1, 0)"
  "Rotated (0, 0, 1) (- 1, 0, 0) (pi * 3 / 2) = (0, - 1, 0)"
proof -
  have c: "cos (pi * 3 / 2) = 0" "sin (pi * 3 / 2) = - 1"
    using cos_3over2_pi sin_3over2_pi by (simp_all add: mult.commute)
  show "Rotated (0, 0, 1) (- 1, 0, 0) (pi / 2) = (0, 1, 0)"
    "Rotated (0, 0, 1) (- 1, 0, 0) pi = (0, 0, - 1)"
    "Rotated (0, 0, 1) (- 1, 0, 0) (pi * 1.5) = (0, - 1, 0)"
    "Rotated (0, 0, 1) (- 1, 0, 0) (pi * 3 / 2) = (0, - 1, 0)"
    by (simp_all add: Rotated_def Added_def Multiplied_def Crossed_def Dot_def
          gp_X_def gp_Y_def gp_Z_def c)
qed



text \<open>
  C1, as the code has it. Let the fit leave the up direction of a camera as it is. After
  \<^verbatim>\<open>StartAnimation\<close> with an owner and a view, when the reset-up policy is not set and the
  new view direction is not equal, within \<^verbatim>\<open>Precision::Angular()\<close>, to the direction of the
  previous camera, the up direction of the end state is one of the four candidates (the up
  direction of the new orientation, and its rotations by 90, 180 and 270 degrees about
  the new view direction), its angle to the previous up direction is no greater than that
  of any candidate, and every candidate before it in that order has a strictly greater
  angle. When the policy is set, or the two directions are equal, the up direction of the
  end state is the first candidate, that of the new orientation.
\<close>

theorem closest_up_of_four_candidates:
  fixes theSetProj theFitAll theBnd v ori c
  defines "e1 \<equiv> theSetProj ori (myIsYup c) (Camera v)"
  defines "anUpList \<equiv> [Up e1, Rotated (Up e1) (Direction e1) (pi / 2),
                          Rotated (Up e1) (Direction e1) pi,
                          Rotated (Up e1) (Direction e1) (pi * 1.5)]"
  defines "anOldUp \<equiv> Up (Camera v)"
  defines "theEndUp \<equiv> Up (myEndState (StartAnimation theSetProj theFitAll theBnd (Some v) (Some ori) c))"
  assumes fit: "\<forall>b e. Up (theFitAll b e) = Up e"
  shows "(\<not> myToResetCameraUp c \<and> \<not> IsEqual (Direction e1) (Direction (Camera v)) Precision_Angular \<longrightarrow>
            (\<exists>k<4. theEndUp = anUpList ! k
               \<and> (\<forall>j<4. Angle (anUpList ! k) anOldUp \<le> Angle (anUpList ! j) anOldUp)
               \<and> (\<forall>j<k. Angle (anUpList ! k) anOldUp < Angle (anUpList ! j) anOldUp)))
       \<and> (myToResetCameraUp c \<or> IsEqual (Direction e1) (Direction (Camera v)) Precision_Angular \<longrightarrow>
            theEndUp = Up e1)"
proof (intro conjI impI)
  assume a: "\<not> myToResetCameraUp c \<and> \<not> IsEqual (Direction e1) (Direction (Camera v)) Precision_Angular"
  have l: "anUpList_of (Up e1) (Direction e1) = anUpList"
    by (simp add: anUpList_of_def anUpList_def)
  have "theEndUp = snd (closestUp_loop anUpList anOldUp 0 (Precision_Infinite, (1, 0, 0)))"
    unfolding theEndUp_def StartAnimation_myEndState fit [rule_format]
    using a by (simp add: e1_def [symmetric] l anOldUp_def)
  moreover obtain k where "k < 4"
    and "closestUp_loop anUpList anOldUp 0 (Precision_Infinite, (1, 0, 0))
           = (Angle (anUpList ! k) anOldUp, anUpList ! k)"
    and "\<forall>j<4. Angle (anUpList ! k) anOldUp \<le> Angle (anUpList ! j) anOldUp"
    and "\<forall>j<k. Angle (anUpList ! k) anOldUp < Angle (anUpList ! j) anOldUp"
    using closestUp_loop_first_minimum [of anUpList anOldUp "(1, 0, 0)"] by blast
  ultimately show "\<exists>k<4. theEndUp = anUpList ! k
               \<and> (\<forall>j<4. Angle (anUpList ! k) anOldUp \<le> Angle (anUpList ! j) anOldUp)
               \<and> (\<forall>j<k. Angle (anUpList ! k) anOldUp < Angle (anUpList ! j) anOldUp)"
    by (intro exI [of _ k]) simp
next
  assume "myToResetCameraUp c \<or> IsEqual (Direction e1) (Direction (Camera v)) Precision_Angular"
  then show "theEndUp = Up e1"
    unfolding theEndUp_def StartAnimation_myEndState fit [rule_format]
    by (auto simp: e1_def [symmetric])
qed

theorem closest_up_of_four_candidates_witness:
  "(\<forall>b e. Up ((\<lambda>box cam. cam\<lparr>Scale := 2\<rparr>) b e) = Up e)
   \<and> \<not> myToResetCameraUp new_AIS_ViewCube
   \<and> \<not> IsEqual (- 1, 0, 0) (0, 0, - 1) Precision_Angular
   \<and> [(0, 0, 1), Rotated (0, 0, 1) (- 1, 0, 0) (pi / 2), Rotated (0, 0, 1) (- 1, 0, 0) pi,
       Rotated (0, 0, 1) (- 1, 0, 0) (pi * 1.5)]
      = [(0, 0, 1), (0, 1, 0), (0, 0, - 1), (0, - 1, 0)]
   \<and> Up (myEndState (StartAnimation (\<lambda>ori yup cam. cam\<lparr>Direction := (- 1, 0, 0), Up := (0, 0, 1)\<rparr>) (\<lambda>box cam. cam\<lparr>Scale := 2\<rparr>) None
        (Some \<lparr>ViewId = 0, Camera = \<lparr>Eye = (0, 0, 1), Direction = (0, 0, - 1), Up = (0, 1, 0), Scale = 1\<rparr>,
             ImmediateUpdate = True, IsInvalidated = False\<rparr>)
        (Some V3d_Xpos) new_AIS_ViewCube)) = (0, 1, 0)"
proof -
  have fit: "\<forall>b e. Up ((\<lambda>box cam. cam\<lparr>Scale := 2\<rparr>) b e) = Up e"
    by simp
  have r: "\<not> myToResetCameraUp new_AIS_ViewCube"
    by (simp add: new_AIS_ViewCube_def)
  have d: "\<not> IsEqual (- 1, 0, 0) (0, 0, - 1) Precision_Angular"
  proof -
    have "1 / 10 ^ 12 < pi / 2"
      using pi_ge_two by simp
    then show ?thesis
      by (simp only: IsEqual_def Angle_axis_examples Precision_Angular_def not_le)
  qed
  have l: "[(0, 0, 1), Rotated (0, 0, 1) (- 1, 0, 0) (pi / 2), Rotated (0, 0, 1) (- 1, 0, 0) pi,
       Rotated (0, 0, 1) (- 1, 0, 0) (pi * 1.5)]
      = [(0, 0, 1), (0, 1, 0), (0, 0, - 1), (0, - 1, 0)]"
    by (simp only: Rotated_examples)
  define theEndUp where "theEndUp = Up (myEndState (StartAnimation (\<lambda>ori yup cam. cam\<lparr>Direction := (- 1, 0, 0), Up := (0, 0, 1)\<rparr>) (\<lambda>box cam. cam\<lparr>Scale := 2\<rparr>) None
        (Some \<lparr>ViewId = 0, Camera = \<lparr>Eye = (0, 0, 1), Direction = (0, 0, - 1), Up = (0, 1, 0), Scale = 1\<rparr>,
             ImmediateUpdate = True, IsInvalidated = False\<rparr>)
        (Some V3d_Xpos) new_AIS_ViewCube))"
  define f where "f = (\<lambda>j. Angle ([(0, 0, 1), (0, 1, 0), (0, 0, - 1), (0, - 1, 0)] ! j) (0, 1, 0))"
  have f: "f 0 = pi / 2" "f 1 = 0" "f 2 = pi / 2" "f 3 = pi"
    by (simp_all add: f_def Angle_axis_examples)
  have "\<exists>k<4. theEndUp = [(0, 0, 1), (0, 1, 0), (0, 0, - 1), (0, - 1, 0)] ! k
          \<and> (\<forall>j<4. f k \<le> f j) \<and> (\<forall>j<k. f k < f j)"
    using closest_up_of_four_candidates
        [where theSetProj = "(\<lambda>ori yup cam. cam\<lparr>Direction := (- 1, 0, 0), Up := (0, 0, 1)\<rparr>)"
           and theFitAll = "(\<lambda>box cam. cam\<lparr>Scale := 2\<rparr>)" and theBnd = None and ori = V3d_Xpos
           and c = new_AIS_ViewCube
           and v = "\<lparr>ViewId = 0, Camera = \<lparr>Eye = (0, 0, 1), Direction = (0, 0, - 1), Up = (0, 1, 0), Scale = 1\<rparr>,
             ImmediateUpdate = True, IsInvalidated = False\<rparr>",
         OF fit, THEN conjunct1] r d
    unfolding theEndUp_def f_def
    by (simp add: Rotated_examples)
  then obtain k where k: "k < 4"
    and e: "theEndUp = [(0, 0, 1), (0, 1, 0), (0, 0, - 1), (0, - 1, 0)] ! k"
    and m: "\<forall>j<4. f k \<le> f j"
    by blast
  from m have m1: "f k \<le> f 1"
    by simp
  from k consider "k = 0" | "k = 1" | "k = 2" | "k = 3"
    by linarith
  then have "k = 1"
    using m1 f pi_gt_zero by cases (auto simp del: pi_gt_zero)
  then have "theEndUp = (0, 1, 0)"
    using e by simp
  then show ?thesis
    using fit r d l unfolding theEndUp_def by simp
qed


text \<open>
  C1 as stated has the closest candidate chosen whenever the policy is not set. A camera
  that already looks along the new direction, with its up direction opposite to that of the
  new orientation, ends with the up direction of the new orientation, at angle \<open>\<pi>\<close> from
  the previous one, although the candidate rotated by 180 degrees is at angle 0.
\<close>

theorem same_direction_keeps_canonical_up:
  "\<not> myToResetCameraUp new_AIS_ViewCube
   \<and> Up (myEndState (StartAnimation (\<lambda>ori yup cam. cam\<lparr>Direction := (- 1, 0, 0), Up := (0, 0, 1)\<rparr>) (\<lambda>box cam. cam\<lparr>Scale := 2\<rparr>) None
        (Some \<lparr>ViewId = 0, Camera = \<lparr>Eye = (1, 0, 0), Direction = (- 1, 0, 0), Up = (0, 0, - 1), Scale = 1\<rparr>,
             ImmediateUpdate = True, IsInvalidated = False\<rparr>)
        (Some V3d_Xpos) new_AIS_ViewCube)) = (0, 0, 1)
   \<and> Angle (0, 0, 1) (0, 0, - 1) = pi
   \<and> Angle (Rotated (0, 0, 1) (- 1, 0, 0) pi) (0, 0, - 1) = 0
   \<and> \<not> Angle (Up (myEndState (StartAnimation (\<lambda>ori yup cam. cam\<lparr>Direction := (- 1, 0, 0), Up := (0, 0, 1)\<rparr>) (\<lambda>box cam. cam\<lparr>Scale := 2\<rparr>) None
        (Some \<lparr>ViewId = 0, Camera = \<lparr>Eye = (1, 0, 0), Direction = (- 1, 0, 0), Up = (0, 0, - 1), Scale = 1\<rparr>,
             ImmediateUpdate = True, IsInvalidated = False\<rparr>)
        (Some V3d_Xpos) new_AIS_ViewCube))) (0, 0, - 1)
        \<le> Angle (Rotated (0, 0, 1) (- 1, 0, 0) pi) (0, 0, - 1)"
proof -
  have r: "\<not> myToResetCameraUp new_AIS_ViewCube"
    by (simp add: new_AIS_ViewCube_def)
  have eq: "IsEqual (- 1, 0, 0) (- 1, 0, 0) Precision_Angular"
    by (simp add: IsEqual_def Angle_axis_examples Precision_Angular_def)
  have u: "Up (myEndState (StartAnimation (\<lambda>ori yup cam. cam\<lparr>Direction := (- 1, 0, 0), Up := (0, 0, 1)\<rparr>) (\<lambda>box cam. cam\<lparr>Scale := 2\<rparr>) None
        (Some \<lparr>ViewId = 0, Camera = \<lparr>Eye = (1, 0, 0), Direction = (- 1, 0, 0), Up = (0, 0, - 1), Scale = 1\<rparr>,
             ImmediateUpdate = True, IsInvalidated = False\<rparr>)
        (Some V3d_Xpos) new_AIS_ViewCube)) = (0, 0, 1)"
    unfolding StartAnimation_myEndState using eq by simp
  have a: "Angle (0, 0, 1) (0, 0, - 1) = pi"
      "Angle (Rotated (0, 0, 1) (- 1, 0, 0) pi) (0, 0, - 1) = 0"
    by (simp_all add: Rotated_examples Angle_axis_examples)
  show ?thesis
    using r u a by (simp add: not_le)
qed

end
